theory Spec2Isabelle
  imports Main "HOL-Library.Char_ord"
begin

section \<open>gherkin2robotframework: translation and reconciliation engine\<close>

text \<open>
  A shallow embedding of \<^verbatim>\<open>gherkin2robotframework/__main__.py\<close>.
  Python strings are HOL strings, the module's global accumulators
  (\<^verbatim>\<open>settings_lines\<close>, \<^verbatim>\<open>test_cases_lines\<close>, \<^verbatim>\<open>keywords_lines\<close>,
  \<^verbatim>\<open>seen_steps\<close>, \<^verbatim>\<open>background_available\<close>) are the fields of a state record
  that every function takes and returns, and every exception is a value of the type
  \<open>error\<close>, returned as \<open>Inl\<close>.
\<close>

subsection \<open>Strings\<close>

definition newline :: char where
  "newline = CHR 0x0A"

definition dquote :: char where
  "dquote = CHR 0x22"

definition backslash :: char where
  "backslash = CHR 0x5C"

text \<open>\<^verbatim>\<open>FIELD_SEP = "    "\<close>\<close>

definition FIELD_SEP :: string where
  "FIELD_SEP = ''    ''"

text \<open>\<^verbatim>\<open>sep.join(xs)\<close>\<close>

fun join :: "string \<Rightarrow> string list \<Rightarrow> string" where
  "join sep [] = []"
| "join sep [x] = x"
| "join sep (x # y # ys) = x @ sep @ join sep (y # ys)"

text \<open>
  \<^verbatim>\<open>s.split(c)\<close> for a one-character separator: the result is never empty, and
  \<^verbatim>\<open>"".split(c) == [""]\<close>.
\<close>

fun split_on :: "char \<Rightarrow> string \<Rightarrow> string list" where
  "split_on c [] = [[]]"
| "split_on c (x # xs) =
     (if x = c then [] # split_on c xs
      else (case split_on c xs of
              [] \<Rightarrow> [[x]]
            | w # ws \<Rightarrow> (x # w) # ws))"

text \<open>
  The characters \<^verbatim>\<open>str.strip()\<close> removes, as far as they are single bytes: tab, line
  feed, vertical tab, form feed, carriage return, the separators 0x1C to 0x1F, and space.
\<close>

definition is_space :: "char \<Rightarrow> bool" where
  "is_space c = (c \<in> set [CHR 0x09, CHR 0x0A, CHR 0x0B, CHR 0x0C, CHR 0x0D,
                            CHR 0x1C, CHR 0x1D, CHR 0x1E, CHR 0x1F, CHR 0x20])"

definition strip :: "string \<Rightarrow> string" where
  "strip s = rev (dropWhile is_space (rev (dropWhile is_space s)))"

text \<open>\<^verbatim>\<open>s.startswith(p)\<close>\<close>

fun startswith :: "string \<Rightarrow> string \<Rightarrow> bool" where
  "startswith s [] = True"
| "startswith [] (p # ps) = False"
| "startswith (x # xs) (p # ps) = (x = p \<and> startswith xs ps)"

text \<open>\<^verbatim>\<open>s.replace(c, r)\<close> for a one-character \<^verbatim>\<open>c\<close>\<close>

fun replace_char :: "char \<Rightarrow> string \<Rightarrow> string \<Rightarrow> string" where
  "replace_char c r [] = []"
| "replace_char c r (x # xs) = (if x = c then r @ replace_char c r xs else x # replace_char c r xs)"

definition is_digit :: "char \<Rightarrow> bool" where
  "is_digit c = (CHR ''0'' \<le> c \<and> c \<le> CHR ''9'')"

definition is_alpha :: "char \<Rightarrow> bool" where
  "is_alpha c = ((CHR ''a'' \<le> c \<and> c \<le> CHR ''z'') \<or> (CHR ''A'' \<le> c \<and> c \<le> CHR ''Z''))"

text \<open>The class \<^verbatim>\<open>[a-zA-Z0-9]\<close>\<close>

definition is_alnum :: "char \<Rightarrow> bool" where
  "is_alnum c = (is_alpha c \<or> is_digit c)"

text \<open>The class \<^verbatim>\<open>[0-9a-zA-Z_]\<close>\<close>

definition is_word :: "char \<Rightarrow> bool" where
  "is_word c = (is_alnum c \<or> c = CHR ''_'')"

subsection \<open>Errors\<close>

text \<open>
  The exceptions the modelled functions raise. \<open>RuntimeWarning n\<close> is the exception of
  \<^verbatim>\<open>process_scenario_outline\<close> for the example block named \<open>n\<close>; the column its
  message names is the first missing one that the iteration over a Python set meets, which
  Python leaves open, so the value does not record it. \<open>ReError\<close> is \<^verbatim>\<open>re.error\<close>.
  \<open>NotModelled\<close> is no exception of Python: it marks a pattern that uses regular
  expression syntax outside the fragment modelled below.
\<close>

datatype error =
  IndexError | KeyError | UnboundLocalError | RuntimeError | RuntimeWarning string | ReError | NotModelled

subsection \<open>The regular expressions of the reconciler\<close>

text \<open>
  \<^verbatim>\<open>re.sub(r'\$\{[0-9a-zA-Z_]+\}', '(.*)', keyword)\<close>: scanning from the left, every
  \<^verbatim>\<open>${\<close>, one or more word characters, \<^verbatim>\<open>}\<close> is replaced by \<^verbatim>\<open>(.*)\<close>.
  \<open>placeholder_end cs\<close> is what follows the placeholder when \<open>cs\<close> (the text after a
  dollar sign) completes one.
\<close>

definition placeholder_end :: "string \<Rightarrow> string option" where
  "placeholder_end cs =
     (case cs of
        [] \<Rightarrow> None
      | b # r \<Rightarrow>
          if b = CHR ''{'' \<and> takeWhile is_word r \<noteq> [] then
            (case dropWhile is_word r of
               [] \<Rightarrow> None
             | e # rest \<Rightarrow> if e = CHR ''}'' then Some rest else None)
          else None)"

lemma placeholder_end_shorter: "placeholder_end cs = Some rest \<Longrightarrow> length rest < length cs"
proof -
  assume a: "placeholder_end cs = Some rest"
  then obtain b r where cs: "cs = b # r"
    by (cases cs) (auto simp: placeholder_end_def)
  from a cs obtain e where d: "dropWhile is_word r = e # rest"
    by (auto simp: placeholder_end_def split: if_splits list.splits)
  have "length (dropWhile is_word r) \<le> length r"
    by (rule length_dropWhile_le)
  with d cs show ?thesis by simp
qed

function re_sub :: "string \<Rightarrow> string" where
  "re_sub [] = []"
| "re_sub (c # cs) =
     (if c = CHR ''$'' then
        (case placeholder_end cs of
           Some rest \<Rightarrow> ''(.*)'' @ re_sub rest
         | None \<Rightarrow> c # re_sub cs)
      else c # re_sub cs)"
  by pat_completeness auto
termination
  by (relation "measure length") (auto dest: placeholder_end_shorter)

text \<open>
  The fragment of Python's pattern syntax that is modelled: an ordinary character, the dot
  (any character but a line feed), a star after either of them, and parentheses, which
  group and capture but do not change whether a pattern matches. A compiled pattern is the
  sequence of its items.
\<close>

datatype rx_atom = Lit char | Dot

datatype rx_item = One rx_atom | Many rx_atom

text \<open>What stands before the position of the parser, for a star that may follow.\<close>

datatype rx_last = NoAtom | Atom | Starred | GroupEnd

definition is_special :: "char \<Rightarrow> bool" where
  "is_special c = (c \<in> set ''.^$*+?{}[]|()'' \<or> c = backslash)"

definition star_last :: "rx_item list \<Rightarrow> rx_item list" where
  "star_last acc = (case acc of One a # r \<Rightarrow> Many a # r | _ \<Rightarrow> acc)"

text \<open>
  \<open>re_parse cs acc d l\<close>: \<open>acc\<close> holds the items read so far, last first, and \<open>d\<close> is
  the number of open parentheses. Python raises \<^verbatim>\<open>re.error\<close> for a closing
  parenthesis that closes nothing, a parenthesis left open, a star with nothing to repeat
  and a star after a star.
\<close>

fun re_parse :: "string \<Rightarrow> rx_item list \<Rightarrow> nat \<Rightarrow> rx_last \<Rightarrow> error + rx_item list" where
  "re_parse [] acc d l = (if 0 < d then Inl ReError else Inr (rev acc))"
| "re_parse (c # cs) acc d l =
     (if c = CHR ''('' then re_parse cs acc (Suc d) NoAtom
      else if c = CHR '')'' then
        (if d = 0 then Inl ReError else re_parse cs acc (d - 1) GroupEnd)
      else if c = CHR ''*'' then
        (case l of
           NoAtom \<Rightarrow> Inl ReError
         | Starred \<Rightarrow> Inl ReError
         | GroupEnd \<Rightarrow> Inl NotModelled
         | Atom \<Rightarrow> re_parse cs (star_last acc) d Starred)
      else if c = CHR ''.'' then re_parse cs (One Dot # acc) d Atom
      else if is_special c then Inl NotModelled
      else re_parse cs (One (Lit c) # acc) d Atom)"

text \<open>\<^verbatim>\<open>re.compile(pattern)\<close>\<close>

definition re_compile :: "string \<Rightarrow> error + rx_item list" where
  "re_compile p = re_parse p [] 0 NoAtom"

fun accepts :: "rx_atom \<Rightarrow> char \<Rightarrow> bool" where
  "accepts (Lit c) x = (x = c)"
| "accepts Dot x = (x \<noteq> newline)"

text \<open>
  \<^verbatim>\<open>re.match(regex, s) is not None\<close>: the pattern matches at the start of \<open>s\<close>; the
  match need not reach the end of \<open>s\<close>. A starred atom first takes one more character,
  then gives up (the greedy order of Python, which finds a match whenever there is one).
\<close>

fun re_match :: "rx_item list \<Rightarrow> string \<Rightarrow> bool" where
  "re_match [] s = True"
| "re_match (One a # rs) [] = False"
| "re_match (One a # rs) (x # xs) = (accepts a x \<and> re_match rs xs)"
| "re_match (Many a # rs) [] = re_match rs []"
| "re_match (Many a # rs) (x # xs) =
     ((accepts a x \<and> re_match (Many a # rs) xs) \<or> re_match rs (x # xs))"


subsection \<open>Reading the keywords of an existing resource\<close>

text \<open>
  The localization module (\<^verbatim>\<open>translation.py\<close>) is a parameter: \<open>tr env key dflt\<close>
  is \<^verbatim>\<open>tr(key)\<close> when \<open>dflt\<close> is \<open>None\<close> and \<^verbatim>\<open>tr(key, d)\<close> when it is
  \<open>Some d\<close>; \<open>language env\<close> is \<^verbatim>\<open>get_language()\<close>. \<open>script_time env\<close> and
  \<open>resource_time env\<close> are \<^verbatim>\<open>datetime.now().isoformat()\<close> at its two calls,
  \<open>settings_dir env\<close> is the global of that name and
  \<open>cwd env\<close> is \<^verbatim>\<open>os.getcwd()\<close>. The global \<^verbatim>\<open>verbose\<close> is taken to be
  \<^verbatim>\<open>False\<close>, its default.
\<close>

record env =
  tr :: "string \<Rightarrow> string option \<Rightarrow> string"
  language :: string
  script_time :: string
  resource_time :: string
  settings_dir :: string
  cwd :: string

text \<open>
  \<^verbatim>\<open>f.readlines()\<close> on the content of a file: every line keeps its line feed, the last
  one has none when the content does not end with one.
\<close>

fun readlines :: "string \<Rightarrow> string list" where
  "readlines [] = []"
| "readlines (c # cs) =
     (if c = newline then [c] # readlines cs
      else (case readlines cs of
              [] \<Rightarrow> [[c]]
            | l # ls \<Rightarrow> (c # l) # ls))"

text \<open>
  The loop of \<^verbatim>\<open>_read_keywords_from_resource\<close> over the lines, with its flag
  \<^verbatim>\<open>in_keywords\<close> and the list \<^verbatim>\<open>keywords\<close> it appends to.
\<close>

fun read_keywords_loop ::
  "env \<Rightarrow> string list \<Rightarrow> bool \<Rightarrow> (string \<times> string) list \<Rightarrow> (string \<times> string) list" where
  "read_keywords_loop E [] in_keywords keywords = keywords"
| "read_keywords_loop E (line # lines) in_keywords keywords =
     (if strip line = [] then read_keywords_loop E lines in_keywords keywords
      else if in_keywords then
        (if \<not> startswith line '' '' \<and> \<not> startswith line [CHR 0x09] then
           read_keywords_loop E lines in_keywords
             (keywords @ [(strip line, re_sub (strip line))])
         else read_keywords_loop E lines in_keywords keywords)
      else if startswith line ''*** Keywords ***'' \<or> startswith line (tr E ''keywords_section'' None)
        then read_keywords_loop E lines True keywords
      else read_keywords_loop E lines in_keywords keywords)"

definition read_keywords_from_resource :: "env \<Rightarrow> string \<Rightarrow> (string \<times> string) list" where
  "read_keywords_from_resource E content = read_keywords_loop E (readlines content) False []"

subsection \<open>Classifying a step against the existing keywords\<close>

text \<open>
  The inner loop of \<^verbatim>\<open>generate_robot_script_resource\<close> over the keyword tuples, with
  its flag \<^verbatim>\<open>ff\<close>. The loop has no \<^verbatim>\<open>break\<close>: every tuple whose literal differs
  from the step is compiled, so a pattern that does not compile raises also after a match.
\<close>

fun keyword_found :: "string \<Rightarrow> (string \<times> string) list \<Rightarrow> bool \<Rightarrow> error + bool" where
  "keyword_found keyword [] ff = Inr ff"
| "keyword_found keyword ((keyword_org, keyword_regex) # kw) ff =
     (if keyword = keyword_org then keyword_found keyword kw True
      else (case re_compile keyword_regex of
              Inl e \<Rightarrow> Inl e
            | Inr regex \<Rightarrow> keyword_found keyword kw (if re_match regex keyword then True else ff)))"

subsection \<open>The line model and the accumulators\<close>

text \<open>
  A line of a section is a string or a list of fields; \<^verbatim>\<open>write_to_script\<close> joins the
  fields with \<^verbatim>\<open>FIELD_SEP\<close> and ends every line with a line feed.
\<close>

datatype line = Str string | Fields "string list"

fun render_line :: "line \<Rightarrow> string" where
  "render_line (Fields fs) = join FIELD_SEP fs @ [newline]"
| "render_line (Str s) = s @ [newline]"

text \<open>\<^verbatim>\<open>write_to_script(outfile, line)\<close>, the file being the text written so far\<close>

definition write_to_script :: "string \<Rightarrow> line \<Rightarrow> string" where
  "write_to_script outfile ln = outfile @ render_line ln"

text \<open>
  The globals of the module. \<^verbatim>\<open>seen_steps\<close> is a dictionary, which keeps the order
  of insertion: a list of pairs with distinct keys, the value \<open>None\<close> for Python's
  \<^verbatim>\<open>None\<close>.
\<close>

record state =
  settings_lines :: "line list"
  test_cases_lines :: "line list"
  keywords_lines :: "line list"
  seen_steps :: "(string \<times> string option) list"
  background_available :: bool

text \<open>
  \<^verbatim>\<open>add_step\<close> and the table transformers append to the list they are given, which
  is \<^verbatim>\<open>test_cases_lines\<close> or \<^verbatim>\<open>keywords_lines\<close>: the argument \<^verbatim>\<open>output\<close> is
  modelled by the name of the section.
\<close>

datatype target = TestCases | Keywords

fun append_line :: "target \<Rightarrow> line \<Rightarrow> state \<Rightarrow> state" where
  "append_line TestCases ln st = st\<lparr>test_cases_lines := test_cases_lines st @ [ln]\<rparr>"
| "append_line Keywords ln st = st\<lparr>keywords_lines := keywords_lines st @ [ln]\<rparr>"

fun append_lines :: "target \<Rightarrow> line list \<Rightarrow> state \<Rightarrow> state" where
  "append_lines sec [] st = st"
| "append_lines sec (ln # lns) st = append_lines sec lns (append_line sec ln st)"

fun section_lines :: "target \<Rightarrow> state \<Rightarrow> line list" where
  "section_lines TestCases st = test_cases_lines st"
| "section_lines Keywords st = keywords_lines st"

subsection \<open>The parsed feature\<close>

datatype cell = Cell (cell_value: string)

datatype table_row = Row (row_cells: "cell list")

datatype datatable = DataTable (datatable_rows: "table_row list")

datatype docstring = DocString (docstring_content: string)

datatype tag = Tag (tag_name: string)

text \<open>
  The nodes of the tree that the Gherkin parser returns, with the keys the module reads.
  A key that a Python dictionary may lack (\<^verbatim>\<open>'docString' in step\<close>) is an option.
  \<open>ex_line\<close> is \<^verbatim>\<open>example['location']['line']\<close>; an example block is taken to have
  its table, the keys \<^verbatim>\<open>tableHeader\<close> and \<^verbatim>\<open>tableBody\<close>.
\<close>

record step =
  step_keyword :: string
  step_text :: string
  docString :: "docstring option"
  dataTable :: "datatable option"

record example =
  ex_name :: string
  ex_line :: nat
  ex_description :: "string option"
  ex_tags :: "tag list"
  ex_tableHeader :: "cell list"
  ex_tableBody :: "table_row list"

record scenario =
  sc_keyword :: string
  sc_name :: string
  sc_description :: "string option"
  sc_tags :: "tag list"
  sc_steps :: "step list"
  sc_examples :: "example list"

subsection \<open>Table transformer\<close>

definition process_datatable_rows :: "table_row list \<Rightarrow> string list list" where
  "process_datatable_rows datatable = map (\<lambda>row. map cell_value (row_cells row)) datatable"

definition DataTable_ref :: string where
  "DataTable_ref = CHR ''@'' # ''{DataTable}''"

text \<open>
  \<^verbatim>\<open>generate_datatable_as_list_of_dict(output, dt)\<close>. The first line is appended before
  \<^verbatim>\<open>dt[0]\<close> is read, which raises IndexError on a table without rows.
\<close>

definition generate_datatable_as_list_of_dict ::
  "target \<Rightarrow> string list list \<Rightarrow> state \<Rightarrow> error + (state \<times> string)" where
  "generate_datatable_as_list_of_dict output dt st =
     (let st1 = append_line output (Fields ['''', ''${DataTable}='', ''Create List'']) st in
      case dt of
        [] \<Rightarrow> Inl IndexError
      | hdr # body \<Rightarrow>
          (let st2 = append_line output
                       (Fields (['''', ''FOR''] @ map (\<lambda>col. ''${'' @ col @ ''}'') hdr @ [''IN''])) st1;
               st3 = append_lines output (map (\<lambda>row. Fields (['''', ''...''] @ row)) body) st2;
               st4 = append_line output
                       (Fields (['''', '''', ''${entry}='', ''Create Dictionary'']
                                @ map (\<lambda>col. col @ ''=${'' @ col @ ''}'') hdr)) st3;
               st5 = append_line output
                       (Fields ['''', '''', ''Append To List'', ''${DataTable}'', ''${entry}'']) st4;
               st6 = append_line output (Fields ['''', ''END'']) st5
           in Inr (st6, DataTable_ref)))"

text \<open>\<^verbatim>\<open>process_docstring(output, docstring)\<close>\<close>

definition process_docstring :: "target \<Rightarrow> docstring \<Rightarrow> state \<Rightarrow> state \<times> string" where
  "process_docstring output ds st =
     (let st1 = append_line output
                  (Fields ['''', ''${DocString}='', ''Catenate'', ''SEPARATOR='' @ [backslash, CHR ''n'']]) st;
          content = split_on newline (docstring_content ds);
          st2 = append_lines output
                  (map (\<lambda>ln. if ln \<noteq> [] then Fields ['''', ''...'', ln]
                              else Fields ['''', ''...'', ''${EMPTY}'']) content) st1
      in (st2, ''${DocString}''))"

definition process_datatable :: "target \<Rightarrow> datatable \<Rightarrow> state \<Rightarrow> error + (state \<times> string)" where
  "process_datatable output datatable st =
     generate_datatable_as_list_of_dict output (process_datatable_rows (datatable_rows datatable)) st"

subsection \<open>Step renderer\<close>

text \<open>The truth value of \<^verbatim>\<open>None\<close> and of the empty string is false.\<close>

fun truthy :: "string option \<Rightarrow> bool" where
  "truthy None = False"
| "truthy (Some s) = (s \<noteq> [])"

text \<open>\<^verbatim>\<open>if resource_keyword not in seen_steps: seen_steps[resource_keyword] = argument_variable\<close>\<close>

definition register_step :: "string \<Rightarrow> string option \<Rightarrow> state \<Rightarrow> state" where
  "register_step resource_keyword argument_variable st =
     (if resource_keyword \<in> fst ` set (seen_steps st) then st
      else st\<lparr>seen_steps := seen_steps st @ [(resource_keyword, argument_variable)]\<rparr>)"

text \<open>\<^verbatim>\<open>step['text'].replace('<', '${').replace('>', '}')\<close>\<close>

definition rewrite_text :: "string \<Rightarrow> string" where
  "rewrite_text t = replace_char CHR ''>'' ''}'' (replace_char CHR ''<'' ''${'' t)"

text \<open>
  \<^verbatim>\<open>add_step(output, step)\<close>. Both branches of the test on the keyword assign
  \<^verbatim>\<open>resource_keyword = text\<close>; they differ in \<^verbatim>\<open>keyword\<close>, the text of the call.
\<close>

definition add_step :: "env \<Rightarrow> target \<Rightarrow> step \<Rightarrow> state \<Rightarrow> error + state" where
  "add_step E output stp st =
     (let text = rewrite_text (step_text stp);
          keyword = (if step_keyword stp = ''* '' then text
                     else tr E (step_keyword stp) (Some (step_keyword stp)) @ text);
          resource_keyword = text;
          r = (case docString stp of
                 Some ds \<Rightarrow> (case process_docstring output ds st of (st1, v) \<Rightarrow> Inr (st1, Some v))
               | None \<Rightarrow>
                   (case dataTable stp of
                      Some dt \<Rightarrow>
                        (case process_datatable output dt st of
                           Inl e \<Rightarrow> Inl e
                         | Inr (st1, v) \<Rightarrow> Inr (st1, Some v))
                    | None \<Rightarrow> Inr (st, None)))
      in case r of
           Inl e \<Rightarrow> Inl e
         | Inr (st1, argument_variable) \<Rightarrow>
             (let st2 = register_step resource_keyword argument_variable st1 in
              Inr (if truthy argument_variable
                   then append_line output (Fields ['''', keyword, the argument_variable]) st2
                   else append_line output (Fields ['''', keyword]) st2)))"

text \<open>\<^verbatim>\<open>for step in steps: add_step(output, step)\<close>\<close>

fun add_steps :: "env \<Rightarrow> target \<Rightarrow> step list \<Rightarrow> state \<Rightarrow> error + state" where
  "add_steps E output [] st = Inr st"
| "add_steps E output (stp # stps) st =
     (case add_step E output stp st of
        Inl e \<Rightarrow> Inl e
      | Inr st1 \<Rightarrow> add_steps E output stps st1)"

subsection \<open>Feature translator\<close>

text \<open>\<^verbatim>\<open>process_tags(tags)\<close>; \<^verbatim>\<open>tag['name'][1:]\<close> drops the at sign.\<close>

definition process_tags :: "env \<Rightarrow> tag list \<Rightarrow> state \<Rightarrow> state" where
  "process_tags E tags st =
     append_line TestCases
       (Fields (['''', ''['' @ tr E ''tags'' None @ '']''] @ map (\<lambda>t. drop 1 (tag_name t)) tags)) st"

text \<open>
  \<^verbatim>\<open>_add_test_case_documentation(description)\<close>: nothing for an empty description;
  \<^verbatim>\<open>split\<close> never returns an empty list, so \<^verbatim>\<open>_description[0]\<close> exists.
\<close>

definition add_test_case_documentation :: "env \<Rightarrow> string \<Rightarrow> state \<Rightarrow> state" where
  "add_test_case_documentation E description st =
     (if description = [] then st
      else (case split_on newline (strip description) of
              [] \<Rightarrow> st
            | d0 # ds \<Rightarrow>
                append_lines TestCases (map (\<lambda>doc. Fields ['''', ''...'', strip doc]) ds)
                  (append_line TestCases
                     (Fields ['''', ''['' @ tr E ''documentation'' None @ '']'', d0]) st)))"

text \<open>\<^verbatim>\<open>_add_keyword_documentation(description)\<close>\<close>

definition add_keyword_documentation :: "env \<Rightarrow> string \<Rightarrow> state \<Rightarrow> state" where
  "add_keyword_documentation E description st =
     (if description = [] then st
      else (case split_on newline (strip description) of
              [] \<Rightarrow> st
            | d0 # ds \<Rightarrow>
                append_lines Keywords (map (\<lambda>doc. Fields ['''', ''...'', strip doc]) ds)
                  (append_line Keywords
                     (Fields ['''', ''['' @ tr E ''documentation'' None @ '']'', d0]) st)))"

definition make_empty :: "string \<Rightarrow> string" where
  "make_empty x = (if x = [] then ''${EMPTY}'' else x)"

text \<open>
  \<^verbatim>\<open>re.findall('<([a-zA-Z0-9]+)>', text)\<close>: scanning from the left, the names between
  angle brackets. \<open>variable_end cs\<close> is the name and what follows it when \<open>cs\<close> (the
  text after an opening bracket) completes a variable.
\<close>

definition variable_end :: "string \<Rightarrow> (string \<times> string) option" where
  "variable_end cs =
     (if takeWhile is_alnum cs \<noteq> [] then
        (case dropWhile is_alnum cs of
           [] \<Rightarrow> None
         | e # rest \<Rightarrow> if e = CHR ''>'' then Some (takeWhile is_alnum cs, rest) else None)
      else None)"

lemma variable_end_shorter: "variable_end cs = Some (v, rest) \<Longrightarrow> length rest < Suc (length cs)"
proof -
  assume a: "variable_end cs = Some (v, rest)"
  then obtain e where d: "dropWhile is_alnum cs = e # rest"
    by (auto simp: variable_end_def split: if_splits list.splits)
  have "length (dropWhile is_alnum cs) \<le> length cs"
    by (rule length_dropWhile_le)
  with d show ?thesis by simp
qed

function findall_variables :: "string \<Rightarrow> string list" where
  "findall_variables [] = []"
| "findall_variables (c # cs) =
     (if c = CHR ''<'' then
        (case variable_end cs of
           Some (v, rest) \<Rightarrow> v # findall_variables rest
         | None \<Rightarrow> findall_variables cs)
      else findall_variables cs)"
  by pat_completeness auto
termination
  by (relation "measure length") (auto dest: variable_end_shorter)

text \<open>\<^verbatim>\<open>str(n)\<close> for a line number\<close>

definition digit_char :: "nat \<Rightarrow> char" where
  "digit_char d = ''0123456789'' ! d"

function str_nat :: "nat \<Rightarrow> string" where
  "str_nat n = (if n < 10 then [digit_char n] else str_nat (n div 10) @ [digit_char (n mod 10)])"
  by pat_completeness auto
termination
  by (relation "measure id") auto

declare str_nat.simps [simp del]

text \<open>
  The name \<^verbatim>\<open>process_scenario_outline\<close> computes for the test case of an example
  block. The statement that appended it to \<^verbatim>\<open>test_cases_lines\<close> is commented out in
  the source, so the name is computed and not used.
\<close>

definition test_case_name :: "scenario \<Rightarrow> example \<Rightarrow> string" where
  "test_case_name sc ex =
     (if ex_name ex \<noteq> [] then sc_name sc @ '': '' @ ex_name ex
      else sc_name sc @ '' example line '' @ str_nat (ex_line ex))"

text \<open>\<^verbatim>\<open>tr("scenariooutline").split(',')[0] + ' ' + scenario['name']\<close>\<close>

definition outline_keyword_name :: "env \<Rightarrow> scenario \<Rightarrow> string" where
  "outline_keyword_name E sc =
     (case split_on CHR '','' (tr E ''scenariooutline'' None) of
        [] \<Rightarrow> []
      | w # ws \<Rightarrow> w) @ '' '' @ sc_name sc"

text \<open>The dictionary \<^verbatim>\<open>header_col\<close>: a later column of the same name wins.\<close>

fun build_header_col :: "string list \<Rightarrow> nat \<Rightarrow> (string \<rightharpoonup> nat) \<Rightarrow> (string \<rightharpoonup> nat)" where
  "build_header_col [] col_nr header_col = header_col"
| "build_header_col (v # vs) col_nr header_col =
     build_header_col vs (Suc col_nr) (header_col(v \<mapsto> col_nr))"

text \<open>
  \<^verbatim>\<open>for a in header: args.append(example_row['cells'][header_col[a]]['value'])\<close>, with
  the KeyError and the IndexError of the two subscripts.
\<close>

fun row_args :: "(string \<rightharpoonup> nat) \<Rightarrow> cell list \<Rightarrow> string list \<Rightarrow> error + string list" where
  "row_args header_col cells [] = Inr []"
| "row_args header_col cells (a # as) =
     (case header_col a of
        None \<Rightarrow> Inl KeyError
      | Some i \<Rightarrow>
          if i < length cells then
            (case row_args header_col cells as of
               Inl e \<Rightarrow> Inl e
             | Inr args \<Rightarrow> Inr (cell_value (cells ! i) # args))
          else Inl IndexError)"

text \<open>\<^verbatim>\<open>for example_row in example['tableBody']: ...\<close>\<close>

fun example_rows ::
  "(string \<rightharpoonup> nat) \<Rightarrow> string list \<Rightarrow> table_row list \<Rightarrow> state \<Rightarrow> error + state" where
  "example_rows header_col header [] st = Inr st"
| "example_rows header_col header (example_row # rows) st =
     (case row_args header_col (row_cells example_row) header of
        Inl e \<Rightarrow> Inl e
      | Inr args \<Rightarrow>
          example_rows header_col header rows
            (append_line TestCases (Fields ([''''] @ map make_empty args)) st))"

text \<open>
  The body of the loop over the example blocks. \<open>variables\<close> is the list of the names
  found in the steps; the source makes a set of it and only asks whether each member is
  in the header. The result holds the local \<^verbatim>\<open>header\<close> of this round.
\<close>

definition outline_example ::
  "env \<Rightarrow> scenario \<Rightarrow> string list \<Rightarrow> example \<Rightarrow> state \<Rightarrow> error + (state \<times> string list)" where
  "outline_example E sc variables ex st =
     (let name_of_test_case = test_case_name sc ex;
          st1 = (case ex_description ex of
                   Some d \<Rightarrow> add_test_case_documentation E d st
                 | None \<Rightarrow> st);
          tags = sc_tags sc @ ex_tags ex;
          st2 = (if tags \<noteq> [] then process_tags E tags st1 else st1);
          st3 = append_line TestCases
                  (Fields ['''', ''['' @ tr E ''template'' None @ '']'', outline_keyword_name E sc]) st2;
          header = map cell_value (ex_tableHeader ex);
          header_col = build_header_col header 0 Map.empty
      in if list_ex (\<lambda>v. v \<notin> set header) variables then Inl (RuntimeWarning (ex_name ex))
         else (case example_rows header_col header (ex_tableBody ex) st3 of
                 Inl e \<Rightarrow> Inl e
               | Inr st4 \<Rightarrow> Inr (append_line TestCases (Str '''') st4, header)))"

text \<open>
  \<^verbatim>\<open>for example in scenario['examples']: ...\<close>. The third argument is the local
  \<^verbatim>\<open>header\<close>, \<open>None\<close> as long as no round has bound it.
\<close>

fun outline_examples ::
  "env \<Rightarrow> scenario \<Rightarrow> string list \<Rightarrow> example list \<Rightarrow> string list option \<Rightarrow> state
     \<Rightarrow> error + (state \<times> string list option)" where
  "outline_examples E sc variables [] header st = Inr (st, header)"
| "outline_examples E sc variables (ex # exs) header st =
     (case outline_example E sc variables ex st of
        Inl e \<Rightarrow> Inl e
      | Inr (st1, header1) \<Rightarrow> outline_examples E sc variables exs (Some header1) st1)"

text \<open>
  \<^verbatim>\<open>process_scenario_outline(scenario)\<close>. After the loop the name of the keyword and
  its documentation are appended, and then \<^verbatim>\<open>header\<close> is read: with no example block
  it was never bound, and Python raises UnboundLocalError.
\<close>

definition process_scenario_outline :: "env \<Rightarrow> scenario \<Rightarrow> state \<Rightarrow> error + state" where
  "process_scenario_outline E sc st =
     (let variables = concat (map (\<lambda>stp. findall_variables (step_text stp)) (sc_steps sc)) in
      case outline_examples E sc variables (sc_examples sc) None st of
        Inl e \<Rightarrow> Inl e
      | Inr (st1, header) \<Rightarrow>
          (let st2 = append_line Keywords (Str (outline_keyword_name E sc)) st1;
               st3 = (case sc_description sc of
                        Some d \<Rightarrow> add_keyword_documentation E d st2
                      | None \<Rightarrow> st2)
           in case header of
                None \<Rightarrow> Inl UnboundLocalError
              | Some hdr \<Rightarrow>
                  (let arguments = map (\<lambda>arg. ''${'' @ arg @ ''}'') hdr;
                       st4 = append_line Keywords
                               (Fields (['''', ''['' @ tr E ''arguments'' None @ '']''] @ arguments)) st3;
                       st5 = (if background_available st4
                              then append_line Keywords (Fields ['''', tr E ''background'' None]) st4
                              else st4)
                   in case add_steps E Keywords (sc_steps sc) st5 of
                        Inl e \<Rightarrow> Inl e
                      | Inr st6 \<Rightarrow> Inr (append_line Keywords (Str '''') st6))))"

text \<open>\<^verbatim>\<open>process_scenario_plain(scenario)\<close>: the first line is the name of the test case.\<close>

definition process_scenario_plain :: "env \<Rightarrow> scenario \<Rightarrow> state \<Rightarrow> error + state" where
  "process_scenario_plain E sc st =
     (let st1 = append_line TestCases (Str (sc_name sc)) st;
          st2 = (case sc_description sc of
                   Some d \<Rightarrow> add_test_case_documentation E d st1
                 | None \<Rightarrow> st1);
          st3 = (if sc_tags sc \<noteq> [] then process_tags E (sc_tags sc) st2 else st2);
          st4 = (if background_available st3
                 then append_line TestCases (Fields ['''', tr E ''background'' None]) st3
                 else st3)
      in case add_steps E TestCases (sc_steps sc) st4 of
           Inl e \<Rightarrow> Inl e
         | Inr st5 \<Rightarrow> Inr (append_line TestCases (Str '''') st5))"

text \<open>\<^verbatim>\<open>process_scenario(scenario)\<close>\<close>

definition process_scenario :: "env \<Rightarrow> scenario \<Rightarrow> state \<Rightarrow> error + state" where
  "process_scenario E sc st =
     (if sc_keyword sc \<in> set ([''Scenario''] @ split_on CHR '','' (tr E ''scenario'' None))
        then process_scenario_plain E sc st
      else if sc_keyword sc \<in> set ([''Scenario Outline''] @ split_on CHR '','' (tr E ''scenariooutline'' None))
        then process_scenario_outline E sc st
      else Inl RuntimeError)"

record background =
  bg_name :: string
  bg_steps :: "step list"

text \<open>\<^verbatim>\<open>process_background(background)\<close>\<close>

definition process_background :: "env \<Rightarrow> background \<Rightarrow> state \<Rightarrow> error + state" where
  "process_background E bg st =
     (let st0 = st\<lparr>background_available := True\<rparr>;
          st1 = append_line Keywords (Str (tr E ''background'' None)) st0;
          st2 = (if bg_name bg \<noteq> []
                 then append_line Keywords
                        (Fields ['''', ''['' @ tr E ''documentation'' None @ '']'', bg_name bg]) st1
                 else st1)
      in case add_steps E Keywords (bg_steps bg) st2 of
           Inl e \<Rightarrow> Inl e
         | Inr st3 \<Rightarrow> Inr (append_line Keywords (Str '''') st3))"

text \<open>
  A child of the feature is a background, a scenario, or something else (a rule), for
  which \<^verbatim>\<open>process_feature\<close> raises RuntimeError.
\<close>

datatype child = Background background | Scenario scenario | OtherChild

record feature =
  f_name :: string
  f_description :: "string option"
  f_tags :: "tag list"
  f_children :: "child list"

fun process_children :: "env \<Rightarrow> child list \<Rightarrow> state \<Rightarrow> error + state" where
  "process_children E [] st = Inr st"
| "process_children E (c # cs) st =
     (case (case c of
              Background bg \<Rightarrow> process_background E bg st
            | Scenario sc \<Rightarrow> process_scenario E sc st
            | OtherChild \<Rightarrow> Inl RuntimeError) of
        Inl e \<Rightarrow> Inl e
      | Inr st1 \<Rightarrow> process_children E cs st1)"

text \<open>
  \<^verbatim>\<open>process_feature(feature)\<close>. The call of \<^verbatim>\<open>set_language\<close> is part of the
  parameter: \<open>E\<close> is the localization in force after it.
\<close>

definition process_feature :: "env \<Rightarrow> feature \<Rightarrow> state \<Rightarrow> error + state" where
  "process_feature E f st =
     (let st0 = st\<lparr>background_available := False\<rparr>;
          st1 = (case f_description f of
                   None \<Rightarrow> st0
                 | Some d \<Rightarrow>
                     (case split_on newline (strip d) of
                        [] \<Rightarrow> st0
                      | d0 # ds \<Rightarrow>
                          st0\<lparr>settings_lines := settings_lines st0
                                 @ [Fields [tr E ''documentation'' None, d0]]
                                 @ map (\<lambda>doc. Fields [''...'', doc]) ds\<rparr>));
          st2 = (if f_tags f \<noteq> []
                 then st1\<lparr>settings_lines := settings_lines st1
                            @ [Fields ([tr E ''testtags'' None] @ map (\<lambda>t. drop 1 (tag_name t)) (f_tags f))]\<rparr>
                 else st1)
      in process_children E (f_children f) st2)"

subsection \<open>Script emitter and resource reconciler\<close>

text \<open>
  The file system is a map from paths to the contents of files; \<^verbatim>\<open>os.path.exists\<close>
  asks whether the path is in its domain, and writing a file always succeeds. What
  \<^verbatim>\<open>print\<close> writes is a list of strings, one for each call.
\<close>

type_synonym filesystem = "string \<rightharpoonup> string"

text \<open>\<^verbatim>\<open>os.path.join(a, b)\<close> of \<^verbatim>\<open>posixpath\<close>\<close>

definition os_path_join :: "string \<Rightarrow> string \<Rightarrow> string" where
  "os_path_join a b =
     (if startswith b ''/'' then b
      else if a = [] \<or> last a = CHR ''/'' then a @ b
      else a @ ''/'' @ b)"

text \<open>
  \<^verbatim>\<open>_apply_settings(outfile, filename)\<close>: the lines of the first settings file that
  exists are written as they are, then a line feed.
\<close>

definition apply_settings :: "env \<Rightarrow> filesystem \<Rightarrow> string \<Rightarrow> string \<Rightarrow> string" where
  "apply_settings E fs outfile filename =
     (case fs (os_path_join (settings_dir E) filename) of
        Some content \<Rightarrow> outfile @ concat (readlines content) @ [newline]
      | None \<Rightarrow>
          (case fs (os_path_join (cwd E) filename) of
             Some content \<Rightarrow> outfile @ concat (readlines content) @ [newline]
           | None \<Rightarrow> outfile))"

definition apply_feature_settings :: "env \<Rightarrow> filesystem \<Rightarrow> string \<Rightarrow> string" where
  "apply_feature_settings E fs outfile = apply_settings E fs outfile ''feature.settings''"

definition apply_resource_settings :: "env \<Rightarrow> filesystem \<Rightarrow> string \<Rightarrow> string" where
  "apply_resource_settings E fs outfile = apply_settings E fs outfile ''resource.settings''"

text \<open>\<^verbatim>\<open>f'Keyword "{keyword}" Not Implemented Yet'\<close>\<close>

definition not_implemented :: "string \<Rightarrow> string" where
  "not_implemented keyword = ''Keyword '' @ [dquote] @ keyword @ [dquote] @ '' Not Implemented Yet''"

text \<open>
  The first loop of the reconciling branch over \<^verbatim>\<open>seen_steps.items()\<close>, with its flag
  \<^verbatim>\<open>found\<close>, which is set when some step has no keyword.
\<close>

fun any_missing ::
  "(string \<times> string option) list \<Rightarrow> (string \<times> string) list \<Rightarrow> bool \<Rightarrow> error + bool" where
  "any_missing [] kw found = Inr found"
| "any_missing ((keyword, argument) # steps) kw found =
     (case keyword_found keyword kw False of
        Inl e \<Rightarrow> Inl e
      | Inr ff \<Rightarrow> any_missing steps kw (if \<not> ff then True else found))"

text \<open>The second loop, which prints a stub for every step that has no keyword.\<close>

fun report_missing ::
  "env \<Rightarrow> (string \<times> string option) list \<Rightarrow> (string \<times> string) list \<Rightarrow> string list
     \<Rightarrow> error + string list" where
  "report_missing E [] kw printed = Inr printed"
| "report_missing E ((keyword, argument) # steps) kw printed =
     (case keyword_found keyword kw False of
        Inl e \<Rightarrow> Inl e
      | Inr ff \<Rightarrow>
          report_missing E steps kw
            (if \<not> ff then
               printed @ [keyword]
               @ (if truthy argument
                  then [join FIELD_SEP ['''', ''['' @ tr E ''arguments'' None @ '']'', the argument]]
                  else [])
               @ [join FIELD_SEP ['''', ''Fail'', not_implemented keyword]]
             else printed))"

text \<open>The loop of the creating branch: the stub of every entry of \<^verbatim>\<open>seen_steps\<close>.\<close>

fun write_stubs :: "env \<Rightarrow> (string \<times> string option) list \<Rightarrow> string \<Rightarrow> string" where
  "write_stubs E [] f = f"
| "write_stubs E ((k, v) # steps) f =
     (let f1 = write_to_script f (Str k);
          f2 = (if truthy v
                then write_to_script f1 (Fields ['''', ''['' @ tr E ''arguments'' None @ '']'', the v])
                else f1);
          f3 = write_to_script f2 (Fields ['''', ''Fail'', not_implemented k]);
          f4 = write_to_script f3 (Str '''')
      in write_stubs E steps f4)"

definition generated_by :: "string \<Rightarrow> string" where
  "generated_by timestamp = ''_gherkin2robotframework on '' @ timestamp @ ''_''"

text \<open>
  \<^verbatim>\<open>generate_robot_script_resource(path, step_definitions_resource)\<close>: the new file
  system and what was printed. \<open>resource_time E\<close> is \<^verbatim>\<open>datetime.now().isoformat()\<close>
  at this call.
\<close>

definition generate_robot_script_resource ::
  "env \<Rightarrow> string \<Rightarrow> string \<Rightarrow> state \<Rightarrow> filesystem \<Rightarrow> error + (filesystem \<times> string list)" where
  "generate_robot_script_resource E path step_definitions_resource st fs =
     (let fn = os_path_join path step_definitions_resource in
      case fs fn of
        Some content \<Rightarrow>
          (let kw = read_keywords_from_resource E content in
           case any_missing (seen_steps st) kw False of
             Inl e \<Rightarrow> Inl e
           | Inr found \<Rightarrow>
               if found then
                 (case report_missing E (seen_steps st) kw
                         [[newline] @ ''Missing keywords for: '' @ fn @ [newline]] of
                    Inl e \<Rightarrow> Inl e
                  | Inr printed \<Rightarrow> Inr (fs, printed @ [[newline]]))
               else Inr (fs, []))
      | None \<Rightarrow>
          (let f0 = (if language E \<noteq> ''en''
                     then write_to_script [] (Str (''Language: '' @ language E @ [newline]))
                     else []);
               f1 = write_to_script f0 (Str (tr E ''settings_section'' None));
               f2 = apply_resource_settings E fs f1;
               f3 = write_to_script f2
                      (Fields [tr E ''documentation'' None, ''Generated by'', generated_by (resource_time E)]);
               f4 = write_to_script f3 (Fields [tr E ''library'' None, ''Collections'']);
               f5 = write_to_script f4 (Str ([newline] @ tr E ''keywords_section'' None));
               f6 = write_stubs E (seen_steps st) f5
           in Inr (fs(fn \<mapsto> f6), [])))"

text \<open>\<^verbatim>\<open>for line in lines: write_to_script(outfile, line)\<close>\<close>

fun write_lines :: "line list \<Rightarrow> string \<Rightarrow> string" where
  "write_lines [] f = f"
| "write_lines (ln # lns) f = write_lines lns (write_to_script f ln)"

text \<open>\<^verbatim>\<open>s.lower()\<close> on the letters A to Z\<close>

definition lower_char :: "char \<Rightarrow> char" where
  "lower_char c =
     (case map_of (zip ''ABCDEFGHIJKLMNOPQRSTUVWXYZ'' ''abcdefghijklmnopqrstuvwxyz'') c of
        Some l \<Rightarrow> l
      | None \<Rightarrow> c)"

definition file_name_of :: "string \<Rightarrow> string" where
  "file_name_of s = replace_char CHR '' '' ''_'' (map lower_char s)"

text \<open>
  \<^verbatim>\<open>generate_robot_script(path, feature_name)\<close>: the script is written, then the
  resource is created or reconciled. The settings files are read from the file system as
  it was before the script was opened: a settings file and the script have different
  names. \<open>script_time E\<close> is \<^verbatim>\<open>datetime.now().isoformat()\<close> at this call. When the
  reconciler raises, the script has been written; the error value does not hold the file
  system.
\<close>

definition generate_robot_script ::
  "env \<Rightarrow> string \<Rightarrow> string \<Rightarrow> state \<Rightarrow> filesystem \<Rightarrow> error + (filesystem \<times> string list)" where
  "generate_robot_script E path feature_name st fs =
     (let step_definitions_resource = file_name_of (feature_name @ ''_step_definitions.resource'');
          fn = file_name_of feature_name @ ''.robot'';
          f0 = (if language E \<noteq> ''en''
                then write_to_script [] (Str (''Language: '' @ language E @ [newline]))
                else []);
          f1 = write_to_script f0 (Str (tr E ''settings_section'' None));
          f2 = apply_feature_settings E fs f1;
          f3 = write_lines (settings_lines st) f2;
          f4 = write_to_script f3 (Fields [tr E ''resource'' None, ''./'' @ step_definitions_resource]);
          f5 = write_to_script f4 (Fields [tr E ''metadata'' None, ''Feature'', feature_name]);
          f6 = write_to_script f5
                 (Fields [tr E ''metadata'' None, ''Generated by'', generated_by (script_time E)]);
          f7 = write_to_script f6 (Str '''');
          f8 = write_to_script f7 (Str (tr E ''testcases_section'' None));
          f9 = write_lines (test_cases_lines st) f8;
          f10 = write_to_script f9 (Str '''');
          f11 = (if keywords_lines st \<noteq> []
                 then write_to_script
                        (write_lines (keywords_lines st)
                           (write_to_script f10 (Str (tr E ''keywords_section'' None))))
                        (Str '''')
                 else f10)
      in generate_robot_script_resource E path step_definitions_resource st
           (fs(os_path_join path fn \<mapsto> f11)))"

text \<open>
  \<^verbatim>\<open>process_gherkin\<close> from the parsed feature on: the accumulators are reset, the
  feature is translated and the two files are generated in \<open>path\<close>, the directory
  \<^verbatim>\<open>os.path.join(output, feature_sub)\<close>. An exception of the translation leaves the
  function before anything is written.
\<close>

definition initial_state :: state where
  "initial_state =
     \<lparr>settings_lines = [], test_cases_lines = [], keywords_lines = [], seen_steps = [],
      background_available = False\<rparr>"

definition process_gherkin ::
  "env \<Rightarrow> feature \<Rightarrow> string \<Rightarrow> filesystem \<Rightarrow> error + (filesystem \<times> string list)" where
  "process_gherkin E f path fs =
     (case process_feature E f initial_state of
        Inl e \<Rightarrow> Inl e
      | Inr st \<Rightarrow> generate_robot_script E path (f_name f) st fs)"

subsection \<open>A localization and inputs for the examples\<close>

text \<open>
  An English localization: the keys the module asks for with the literals of the target
  format, and the default, when one is given, for every other key.
\<close>

definition english_table :: "(string \<times> string) list" where
  "english_table =
     [(''settings_section'', ''*** Settings ***''),
      (''testcases_section'', ''*** Test Cases ***''),
      (''keywords_section'', ''*** Keywords ***''),
      (''documentation'', ''Documentation''),
      (''arguments'', ''Arguments''),
      (''template'', ''Template''),
      (''tags'', ''Tags''),
      (''testtags'', ''Test Tags''),
      (''library'', ''Library''),
      (''resource'', ''Resource''),
      (''metadata'', ''Metadata''),
      (''background'', ''Background''),
      (''scenario'', ''Scenario''),
      (''scenariooutline'', ''Scenario Outline'')]"

definition english_tr :: "string \<Rightarrow> string option \<Rightarrow> string" where
  "english_tr key dflt =
     (case map_of english_table key of
        Some v \<Rightarrow> v
      | None \<Rightarrow> (case dflt of Some d \<Rightarrow> d | None \<Rightarrow> key))"

definition english_env :: env where
  "english_env =
     \<lparr>tr = english_tr, language = ''en'', script_time = ''2024-01-01T00:00:00'',
      resource_time = ''2024-01-01T00:00:01'', settings_dir = ''/features'', cwd = ''/work''\<rparr>"

definition plain_step :: "string \<Rightarrow> string \<Rightarrow> step" where
  "plain_step k t = \<lparr>step_keyword = k, step_text = t, docString = None, dataTable = None\<rparr>"

definition table_step :: "string \<Rightarrow> string \<Rightarrow> string list list \<Rightarrow> step" where
  "table_step k t rows =
     \<lparr>step_keyword = k, step_text = t, docString = None,
      dataTable = Some (DataTable (map (\<lambda>r. Row (map Cell r)) rows))\<rparr>"

definition example_block :: "string \<Rightarrow> nat \<Rightarrow> string list \<Rightarrow> string list list \<Rightarrow> example" where
  "example_block n l hdr body =
     \<lparr>ex_name = n, ex_line = l, ex_description = None, ex_tags = [],
      ex_tableHeader = map Cell hdr, ex_tableBody = map (\<lambda>r. Row (map Cell r)) body\<rparr>"

definition outline :: "string \<Rightarrow> step list \<Rightarrow> example list \<Rightarrow> scenario" where
  "outline n stps exs =
     \<lparr>sc_keyword = ''Scenario Outline'', sc_name = n, sc_description = None, sc_tags = [],
      sc_steps = stps, sc_examples = exs\<rparr>"

text \<open>An outline with two example blocks of three and of two rows.\<close>

definition withdraw_outline :: scenario where
  "withdraw_outline =
     outline ''Withdraw''
       [plain_step ''Given '' ''the balance is <balance>'',
        plain_step ''Then '' ''the value is <amount>'']
       [example_block ''small'' 7 [''balance'', ''amount'']
          [[''10'', ''1''], [''20'', ''2''], [''30'', '''']],
        example_block '''' 13 [''amount'', ''balance'']
          [[''4'', ''40''], [''5'', ''50'']]]"

text \<open>An outline whose only example block has no column for the variable of its step.\<close>

definition missing_column_outline :: scenario where
  "missing_column_outline =
     outline ''Deposit''
       [plain_step ''Then '' ''the value is <amount>'']
       [example_block ''first'' 5 [''balance''] [[''10'']],
        example_block ''second'' 9 [''amount''] [[''1'']]]"

definition feature_of :: "string \<Rightarrow> child list \<Rightarrow> feature" where
  "feature_of n cs = \<lparr>f_name = n, f_description = None, f_tags = [], f_children = cs\<rparr>"


definition users_resource :: string where
  "users_resource =
     ''*** Keywords ***'' @ [newline] @
     ''Given a user'' @ [newline] @
     ''    Log    done'' @ [newline]"

definition registry_of :: "(string \<times> string option) list \<Rightarrow> state" where
  "registry_of steps = initial_state\<lparr>seen_steps := steps\<rparr>"





section \<open>Properties\<close>

subsection \<open>Appending lines\<close>

lemma section_lines_append_line [simp]:
  "section_lines out (append_line out ln st) = section_lines out st @ [ln]"
  by (cases out) simp_all

lemma seen_steps_append_line [simp]: "seen_steps (append_line out ln st) = seen_steps st"
  by (cases out) simp_all

lemma background_append_line [simp]:
  "background_available (append_line out ln st) = background_available st"
  by (cases out) simp_all

lemma settings_append_line [simp]: "settings_lines (append_line out ln st) = settings_lines st"
  by (cases out) simp_all

lemma keywords_append_line_TestCases [simp]:
  "keywords_lines (append_line TestCases ln st) = keywords_lines st"
  by simp

lemma test_cases_append_line_Keywords [simp]:
  "test_cases_lines (append_line Keywords ln st) = test_cases_lines st"
  by simp

lemma append_lines_append:
  "append_lines out (xs @ ys) st = append_lines out ys (append_lines out xs st)"
  by (induction xs arbitrary: st) simp_all

lemma section_lines_append_lines [simp]:
  "section_lines out (append_lines out lns st) = section_lines out st @ lns"
  by (induction lns arbitrary: st) simp_all

lemma seen_steps_append_lines [simp]: "seen_steps (append_lines out lns st) = seen_steps st"
  by (induction lns arbitrary: st) simp_all

lemma background_append_lines [simp]:
  "background_available (append_lines out lns st) = background_available st"
  by (induction lns arbitrary: st) simp_all

lemma settings_append_lines [simp]: "settings_lines (append_lines out lns st) = settings_lines st"
  by (induction lns arbitrary: st) simp_all

lemma keywords_append_lines_TestCases [simp]:
  "keywords_lines (append_lines TestCases lns st) = keywords_lines st"
  by (induction lns arbitrary: st) simp_all

lemma test_cases_append_lines_Keywords [simp]:
  "test_cases_lines (append_lines Keywords lns st) = test_cases_lines st"
  by (induction lns arbitrary: st) simp_all

lemma section_lines_register_step [simp]:
  "section_lines out (register_step k v st) = section_lines out st"
  by (cases out) (simp_all add: register_step_def)

subsection \<open>Table transformer\<close>

lemma generate_datatable_result:
  "generate_datatable_as_list_of_dict out (hdr # body) st =
     Inr (append_lines out
            (Fields ['''', ''${DataTable}='', ''Create List'']
             # ([Fields (['''', ''FOR''] @ map (\<lambda>col. ''${'' @ col @ ''}'') hdr @ [''IN''])]
                @ map (\<lambda>row. Fields (['''', ''...''] @ row)) body
                @ [Fields (['''', '''', ''${entry}='', ''Create Dictionary'']
                           @ map (\<lambda>col. col @ ''=${'' @ col @ ''}'') hdr),
                   Fields ['''', '''', ''Append To List'', ''${DataTable}'', ''${entry}''],
                   Fields ['''', ''END'']])) st,
          DataTable_ref)"
  by (simp add: generate_datatable_as_list_of_dict_def Let_def append_lines_append)

lemma generate_datatable_empty:
  "generate_datatable_as_list_of_dict out [] st = Inl IndexError"
  by (simp add: generate_datatable_as_list_of_dict_def)

lemma process_docstring_result:
  "process_docstring out ds st =
     (append_lines out
        (Fields ['''', ''${DocString}='', ''Catenate'', ''SEPARATOR='' @ [backslash, CHR ''n'']]
         # map (\<lambda>ln. if ln \<noteq> [] then Fields ['''', ''...'', ln]
                     else Fields ['''', ''...'', ''${EMPTY}''])
             (split_on newline (docstring_content ds))) st,
      ''${DocString}'')"
  by (simp add: process_docstring_def Let_def)

text \<open>The text of the call that \<^verbatim>\<open>add_step\<close> emits.\<close>

lemma add_step_plain:
  assumes "docString stp = None" "dataTable stp = None"
  shows "add_step E out stp st =
           Inr (append_line out
                  (Fields ['''', if step_keyword stp = ''* '' then rewrite_text (step_text stp)
                                 else tr E (step_keyword stp) (Some (step_keyword stp))
                                      @ rewrite_text (step_text stp)])
                  (register_step (rewrite_text (step_text stp)) None st))"
  using assms by (simp add: add_step_def Let_def)

lemma add_step_docstring:
  assumes "docString stp = Some ds"
  shows "add_step E out stp st =
           Inr (append_line out
                  (Fields ['''', if step_keyword stp = ''* '' then rewrite_text (step_text stp)
                                 else tr E (step_keyword stp) (Some (step_keyword stp))
                                      @ rewrite_text (step_text stp),
                           ''${DocString}''])
                  (register_step (rewrite_text (step_text stp)) (Some ''${DocString}'')
                     (fst (process_docstring out ds st))))"
  using assms by (simp add: add_step_def Let_def process_docstring_result)

lemma add_step_datatable:
  assumes "docString stp = None" "dataTable stp = Some t" "datatable_rows t \<noteq> []"
  shows "\<exists>lines. add_step E out stp st =
             Inr (append_line out
                    (Fields ['''', if step_keyword stp = ''* '' then rewrite_text (step_text stp)
                                   else tr E (step_keyword stp) (Some (step_keyword stp))
                                        @ rewrite_text (step_text stp),
                             DataTable_ref])
                    (register_step (rewrite_text (step_text stp)) (Some DataTable_ref)
                       (append_lines out
                          (Fields ['''', ''${DataTable}='', ''Create List''] # lines) st)))"
proof -
  from assms(3) obtain hdr body where "process_datatable_rows (datatable_rows t) = hdr # body"
    by (cases "datatable_rows t") (simp_all add: process_datatable_rows_def)
  then have "\<exists>lines. process_datatable out t st =
               Inr (append_lines out (Fields ['''', ''${DataTable}='', ''Create List''] # lines) st,
                    DataTable_ref)"
    unfolding process_datatable_def by (simp only: generate_datatable_result) blast
  then obtain lines where p: "process_datatable out t st =
      Inr (append_lines out (Fields ['''', ''${DataTable}='', ''Create List''] # lines) st,
           DataTable_ref)"
    by blast
  have "DataTable_ref \<noteq> []" by (simp add: DataTable_ref_def)
  with assms p have "add_step E out stp st =
             Inr (append_line out
                    (Fields ['''', if step_keyword stp = ''* '' then rewrite_text (step_text stp)
                                   else tr E (step_keyword stp) (Some (step_keyword stp))
                                        @ rewrite_text (step_text stp),
                             DataTable_ref])
                    (register_step (rewrite_text (step_text stp)) (Some DataTable_ref)
                       (append_lines out
                          (Fields ['''', ''${DataTable}='', ''Create List''] # lines) st)))"
    by (simp add: add_step_def Let_def del: append_lines.simps)
  then show ?thesis by blast
qed

lemma add_step_datatable_empty:
  assumes "docString stp = None" "dataTable stp = Some t" "datatable_rows t = []"
  shows "add_step E out stp st = Inl IndexError"
  using assms
  by (simp add: add_step_def Let_def process_datatable_def process_datatable_rows_def
      generate_datatable_empty)

lemma add_steps_two:
  "add_step E out s1 st = Inr st1 \<Longrightarrow> add_step E out s2 st1 = Inr st2 \<Longrightarrow>
   add_steps E out [s1, s2] st = Inr st2"
  by simp

lemma add_step_docstring_lines:
  assumes "docString stp = Some ds"
  shows "\<exists>lines c. add_step E out stp st =
           Inr (append_line out (Fields ['''', c, ''${DocString}''])
                  (register_step (rewrite_text (step_text stp)) (Some ''${DocString}'')
                     (append_lines out
                        (Fields ['''', ''${DocString}='', ''Catenate'', ''SEPARATOR='' @ [backslash, CHR ''n'']]
                         # lines) st)))"
  using assms by (simp only: add_step_docstring process_docstring_result fst_conv) blast

text \<open>
  C10. The data-table transformer, whenever it returns, returns the fixed reference
  \<open>DataTable_ref\<close> (the text \<^verbatim>\<open>@\<close>\<^verbatim>\<open>{DataTable}\<close>) after a first line that rebinds
  \<^verbatim>\<open>${DataTable}\<close>, and it returns for every table with a header row; the doc-string
  transformer always returns \<^verbatim>\<open>${DocString}\<close> after a first line that rebinds it. So
  two steps with tables (or with doc-strings) rendered one after the other into the same
  section both rebind and both pass the same variable.
\<close>

theorem table_transformers_reuse_fixed_names:
  "(\<forall>st' v. generate_datatable_as_list_of_dict out dt st = Inr (st', v) \<longrightarrow>
       v = DataTable_ref \<and>
       (\<exists>lines. section_lines out st' =
          section_lines out st @ Fields ['''', ''${DataTable}='', ''Create List''] # lines))
   \<and> (dt \<noteq> [] \<longrightarrow> (\<exists>st'. generate_datatable_as_list_of_dict out dt st = Inr (st', DataTable_ref)))
   \<and> snd (process_docstring out ds st) = ''${DocString}''
   \<and> (\<exists>lines. section_lines out (fst (process_docstring out ds st)) =
          section_lines out st
          @ Fields ['''', ''${DocString}='', ''Catenate'', ''SEPARATOR='' @ [backslash, CHR ''n'']] # lines)
   \<and> (docString s1 = None \<and> dataTable s1 = Some t1 \<and> datatable_rows t1 \<noteq> [] \<and>
        docString s2 = None \<and> dataTable s2 = Some t2 \<and> datatable_rows t2 \<noteq> [] \<longrightarrow>
        (\<exists>st' l1 c1 l2 c2.
           add_steps E out [s1, s2] st = Inr st' \<and>
           section_lines out st' =
             section_lines out st
             @ Fields ['''', ''${DataTable}='', ''Create List''] # l1 @ [Fields ['''', c1, DataTable_ref]]
             @ Fields ['''', ''${DataTable}='', ''Create List''] # l2 @ [Fields ['''', c2, DataTable_ref]]))
   \<and> (docString s1 = Some d1 \<and> docString s2 = Some d2 \<longrightarrow>
        (\<exists>st' l1 c1 l2 c2.
           add_steps E out [s1, s2] st = Inr st' \<and>
           section_lines out st' =
             section_lines out st
             @ Fields ['''', ''${DocString}='', ''Catenate'', ''SEPARATOR='' @ [backslash, CHR ''n'']] # l1
             @ [Fields ['''', c1, ''${DocString}'']]
             @ Fields ['''', ''${DocString}='', ''Catenate'', ''SEPARATOR='' @ [backslash, CHR ''n'']] # l2
             @ [Fields ['''', c2, ''${DocString}'']]))"
proof (intro conjI)
  show "\<forall>st' v. generate_datatable_as_list_of_dict out dt st = Inr (st', v) \<longrightarrow>
       v = DataTable_ref \<and>
       (\<exists>lines. section_lines out st' =
          section_lines out st @ Fields ['''', ''${DataTable}='', ''Create List''] # lines)"
  proof (cases dt)
    case Nil
    then show ?thesis by (simp add: generate_datatable_empty)
  next
    case (Cons hdr body)
    then show ?thesis
      by (simp only: generate_datatable_result) (auto simp del: append_lines.simps)
  qed
next
  show "dt \<noteq> [] \<longrightarrow> (\<exists>st'. generate_datatable_as_list_of_dict out dt st = Inr (st', DataTable_ref))"
    by (cases dt) (simp_all only: generate_datatable_result, simp_all)
next
  show "snd (process_docstring out ds st) = ''${DocString}''"
    by (simp add: process_docstring_result)
next
  show "\<exists>lines. section_lines out (fst (process_docstring out ds st)) =
          section_lines out st
          @ Fields ['''', ''${DocString}='', ''Catenate'', ''SEPARATOR='' @ [backslash, CHR ''n'']] # lines"
    by (simp add: process_docstring_result del: append_lines.simps)
next
  show "docString s1 = None \<and> dataTable s1 = Some t1 \<and> datatable_rows t1 \<noteq> [] \<and>
        docString s2 = None \<and> dataTable s2 = Some t2 \<and> datatable_rows t2 \<noteq> [] \<longrightarrow>
        (\<exists>st' l1 c1 l2 c2.
           add_steps E out [s1, s2] st = Inr st' \<and>
           section_lines out st' =
             section_lines out st
             @ Fields ['''', ''${DataTable}='', ''Create List''] # l1 @ [Fields ['''', c1, DataTable_ref]]
             @ Fields ['''', ''${DataTable}='', ''Create List''] # l2 @ [Fields ['''', c2, DataTable_ref]])"
  proof
    assume a: "docString s1 = None \<and> dataTable s1 = Some t1 \<and> datatable_rows t1 \<noteq> [] \<and>
        docString s2 = None \<and> dataTable s2 = Some t2 \<and> datatable_rows t2 \<noteq> []"
    from a obtain l1 st1 c1 where 1: "add_step E out s1 st = Inr st1"
      and s1: "st1 = append_line out (Fields ['''', c1, DataTable_ref])
                 (register_step (rewrite_text (step_text s1)) (Some DataTable_ref)
                    (append_lines out (Fields ['''', ''${DataTable}='', ''Create List''] # l1) st))"
      using add_step_datatable [of s1 t1 E out st] by blast
    from a obtain l2 st2 c2 where 2: "add_step E out s2 st1 = Inr st2"
      and s2: "st2 = append_line out (Fields ['''', c2, DataTable_ref])
                 (register_step (rewrite_text (step_text s2)) (Some DataTable_ref)
                    (append_lines out (Fields ['''', ''${DataTable}='', ''Create List''] # l2) st1))"
      using add_step_datatable [of s2 t2 E out st1] by blast
    have "section_lines out st2 =
             section_lines out st
             @ Fields ['''', ''${DataTable}='', ''Create List''] # l1 @ [Fields ['''', c1, DataTable_ref]]
             @ Fields ['''', ''${DataTable}='', ''Create List''] # l2 @ [Fields ['''', c2, DataTable_ref]]"
      unfolding s2 s1 by (simp del: append_lines.simps)
    with add_steps_two [OF 1 2] show "\<exists>st' l1 c1 l2 c2.
           add_steps E out [s1, s2] st = Inr st' \<and>
           section_lines out st' =
             section_lines out st
             @ Fields ['''', ''${DataTable}='', ''Create List''] # l1 @ [Fields ['''', c1, DataTable_ref]]
             @ Fields ['''', ''${DataTable}='', ''Create List''] # l2 @ [Fields ['''', c2, DataTable_ref]]"
      by blast
  qed
next
  show "docString s1 = Some d1 \<and> docString s2 = Some d2 \<longrightarrow>
        (\<exists>st' l1 c1 l2 c2.
           add_steps E out [s1, s2] st = Inr st' \<and>
           section_lines out st' =
             section_lines out st
             @ Fields ['''', ''${DocString}='', ''Catenate'', ''SEPARATOR='' @ [backslash, CHR ''n'']] # l1
             @ [Fields ['''', c1, ''${DocString}'']]
             @ Fields ['''', ''${DocString}='', ''Catenate'', ''SEPARATOR='' @ [backslash, CHR ''n'']] # l2
             @ [Fields ['''', c2, ''${DocString}'']])"
  proof
    assume a: "docString s1 = Some d1 \<and> docString s2 = Some d2"
    from a obtain l1 st1 c1 where 1: "add_step E out s1 st = Inr st1"
      and s1: "st1 = append_line out (Fields ['''', c1, ''${DocString}''])
                 (register_step (rewrite_text (step_text s1)) (Some ''${DocString}'')
                    (append_lines out
                       (Fields ['''', ''${DocString}='', ''Catenate'', ''SEPARATOR='' @ [backslash, CHR ''n'']]
                        # l1) st))"
      using add_step_docstring_lines [of s1 d1 E out st] by blast
    from a obtain l2 st2 c2 where 2: "add_step E out s2 st1 = Inr st2"
      and s2: "st2 = append_line out (Fields ['''', c2, ''${DocString}''])
                 (register_step (rewrite_text (step_text s2)) (Some ''${DocString}'')
                    (append_lines out
                       (Fields ['''', ''${DocString}='', ''Catenate'', ''SEPARATOR='' @ [backslash, CHR ''n'']]
                        # l2) st1))"
      using add_step_docstring_lines [of s2 d2 E out st1] by blast
    have "section_lines out st2 =
             section_lines out st
             @ Fields ['''', ''${DocString}='', ''Catenate'', ''SEPARATOR='' @ [backslash, CHR ''n'']] # l1
             @ [Fields ['''', c1, ''${DocString}'']]
             @ Fields ['''', ''${DocString}='', ''Catenate'', ''SEPARATOR='' @ [backslash, CHR ''n'']] # l2
             @ [Fields ['''', c2, ''${DocString}'']]"
      unfolding s2 s1 by (simp del: append_lines.simps)
    with add_steps_two [OF 1 2] show "\<exists>st' l1 c1 l2 c2.
           add_steps E out [s1, s2] st = Inr st' \<and>
           section_lines out st' =
             section_lines out st
             @ Fields ['''', ''${DocString}='', ''Catenate'', ''SEPARATOR='' @ [backslash, CHR ''n'']] # l1
             @ [Fields ['''', c1, ''${DocString}'']]
             @ Fields ['''', ''${DocString}='', ''Catenate'', ''SEPARATOR='' @ [backslash, CHR ''n'']] # l2
             @ [Fields ['''', c2, ''${DocString}'']]"
      by blast
  qed
qed

theorem table_transformers_reuse_fixed_names_witness:
  "(\<exists>st'. generate_datatable_as_list_of_dict Keywords [[''a'', ''b''], [''1'', ''2'']] initial_state =
            Inr (st', DataTable_ref))
   \<and> (\<exists>st' l1 c1 l2 c2.
         add_steps english_env Keywords
           [table_step ''Given '' ''users'' [[''a''], [''1'']], table_step ''And '' ''accounts'' [[''b''], [''2'']]]
           initial_state = Inr st' \<and>
         section_lines Keywords st' =
           section_lines Keywords initial_state
           @ Fields ['''', ''${DataTable}='', ''Create List''] # l1 @ [Fields ['''', c1, DataTable_ref]]
           @ Fields ['''', ''${DataTable}='', ''Create List''] # l2 @ [Fields ['''', c2, DataTable_ref]])"
proof -
  note th = table_transformers_reuse_fixed_names
    [where out = Keywords and dt = "[[''a'', ''b''], [''1'', ''2'']]" and st = initial_state
       and E = english_env
       and ?s1.0 = "table_step ''Given '' ''users'' [[''a''], [''1'']]"
       and ?t1.0 = "DataTable [Row [Cell ''a''], Row [Cell ''1'']]"
       and ?s2.0 = "table_step ''And '' ''accounts'' [[''b''], [''2'']]"
       and ?t2.0 = "DataTable [Row [Cell ''b''], Row [Cell ''2'']]"]
  have a: "[[''a'', ''b''], [''1'', ''2'']] \<noteq> ([] :: string list list)"
    by simp
  have b: "docString (table_step ''Given '' ''users'' [[''a''], [''1'']]) = None \<and>
           dataTable (table_step ''Given '' ''users'' [[''a''], [''1'']])
             = Some (DataTable [Row [Cell ''a''], Row [Cell ''1'']]) \<and>
           datatable_rows (DataTable [Row [Cell ''a''], Row [Cell ''1'']]) \<noteq> [] \<and>
           docString (table_step ''And '' ''accounts'' [[''b''], [''2'']]) = None \<and>
           dataTable (table_step ''And '' ''accounts'' [[''b''], [''2'']])
             = Some (DataTable [Row [Cell ''b''], Row [Cell ''2'']]) \<and>
           datatable_rows (DataTable [Row [Cell ''b''], Row [Cell ''2'']]) \<noteq> []"
    by (simp add: table_step_def)
  from th a b show ?thesis by blast
qed

subsection \<open>Step renderer\<close>

lemma seen_steps_register_step:
  "seen_steps (register_step k v st) =
     (if k \<in> fst ` set (seen_steps st) then seen_steps st else seen_steps st @ [(k, v)])"
  by (simp add: register_step_def)

text \<open>
  Whenever \<^verbatim>\<open>add_step\<close> returns, it has appended the lines of the argument, if any,
  registered the rewritten text and appended the call.
\<close>

lemma add_step_shape:
  assumes "add_step E out stp st = Inr st'"
  shows "\<exists>lines arg.
           st' = append_line out
                   (Fields (['''', if step_keyword stp = ''* '' then rewrite_text (step_text stp)
                                   else tr E (step_keyword stp) (Some (step_keyword stp))
                                        @ rewrite_text (step_text stp)]
                            @ (case arg of None \<Rightarrow> [] | Some v \<Rightarrow> [v])))
                   (register_step (rewrite_text (step_text stp)) arg (append_lines out lines st))"
proof (cases "docString stp")
  case (Some ds)
  let ?lines = "Fields ['''', ''${DocString}='', ''Catenate'', ''SEPARATOR='' @ [backslash, CHR ''n'']]
         # map (\<lambda>ln. if ln \<noteq> [] then Fields ['''', ''...'', ln]
                     else Fields ['''', ''...'', ''${EMPTY}''])
             (split_on newline (docstring_content ds))"
  from assms Some have "st' = append_line out
                   (Fields (['''', if step_keyword stp = ''* '' then rewrite_text (step_text stp)
                                   else tr E (step_keyword stp) (Some (step_keyword stp))
                                        @ rewrite_text (step_text stp)]
                            @ (case Some ''${DocString}'' of None \<Rightarrow> [] | Some v \<Rightarrow> [v])))
                   (register_step (rewrite_text (step_text stp)) (Some ''${DocString}'')
                      (append_lines out ?lines st))"
    by (simp only: add_step_docstring process_docstring_result fst_conv) simp
  then show ?thesis by blast
next
  case None
  show ?thesis
  proof (cases "dataTable stp")
    case n: None
    from assms None n have "st' = append_line out
                   (Fields (['''', if step_keyword stp = ''* '' then rewrite_text (step_text stp)
                                   else tr E (step_keyword stp) (Some (step_keyword stp))
                                        @ rewrite_text (step_text stp)]
                            @ (case None of None \<Rightarrow> [] | Some v \<Rightarrow> [v])))
                   (register_step (rewrite_text (step_text stp)) None (append_lines out [] st))"
      by (simp add: add_step_plain)
    then show ?thesis by blast
  next
    case (Some t)
    show ?thesis
    proof (cases "datatable_rows t = []")
      case True
      with assms None Some show ?thesis
        by (simp add: add_step_datatable_empty)
    next
      case False
      from add_step_datatable [OF None Some False, of E out st] assms
      obtain lines where "st' = append_line out
                    (Fields ['''', if step_keyword stp = ''* '' then rewrite_text (step_text stp)
                                   else tr E (step_keyword stp) (Some (step_keyword stp))
                                        @ rewrite_text (step_text stp),
                             DataTable_ref])
                    (register_step (rewrite_text (step_text stp)) (Some DataTable_ref)
                       (append_lines out
                          (Fields ['''', ''${DataTable}='', ''Create List''] # lines) st))"
        by auto
      then have "st' = append_line out
                   (Fields (['''', if step_keyword stp = ''* '' then rewrite_text (step_text stp)
                                   else tr E (step_keyword stp) (Some (step_keyword stp))
                                        @ rewrite_text (step_text stp)]
                            @ (case Some DataTable_ref of None \<Rightarrow> [] | Some v \<Rightarrow> [v])))
                   (register_step (rewrite_text (step_text stp)) (Some DataTable_ref)
                      (append_lines out
                          (Fields ['''', ''${DataTable}='', ''Create List''] # lines) st))"
        by simp
      then show ?thesis by blast
    qed
  qed
qed

text \<open>
  C3, as amended. The text registered in the step registry is the placeholder-rewritten
  text whatever the keyword of the step is (it is appended when it is not yet a key, and
  the registry is unchanged otherwise); only the text of the emitted call depends on the
  keyword: the rewritten text for the keyword \<^verbatim>\<open>"* "\<close>, and otherwise
  \<^verbatim>\<open>tr(keyword, keyword)\<close> followed by the rewritten text.
\<close>

theorem add_step_registers_rewritten_text:
  assumes "add_step E out stp st = Inr st'"
  shows "(\<exists>arg. seen_steps st' =
            (if rewrite_text (step_text stp) \<in> fst ` set (seen_steps st) then seen_steps st
             else seen_steps st @ [(rewrite_text (step_text stp), arg)]))
         \<and> (\<exists>rest. last (section_lines out st') =
               Fields ('''' #
                       (if step_keyword stp = ''* '' then rewrite_text (step_text stp)
                        else tr E (step_keyword stp) (Some (step_keyword stp))
                             @ rewrite_text (step_text stp)) # rest))"
proof -
  from add_step_shape [OF assms] obtain lines arg where
    s: "st' = append_line out
                   (Fields (['''', if step_keyword stp = ''* '' then rewrite_text (step_text stp)
                                   else tr E (step_keyword stp) (Some (step_keyword stp))
                                        @ rewrite_text (step_text stp)]
                            @ (case arg of None \<Rightarrow> [] | Some v \<Rightarrow> [v])))
                   (register_step (rewrite_text (step_text stp)) arg (append_lines out lines st))"
    by blast
  have "seen_steps st' =
            (if rewrite_text (step_text stp) \<in> fst ` set (seen_steps st) then seen_steps st
             else seen_steps st @ [(rewrite_text (step_text stp), arg)])"
    unfolding s by (simp add: seen_steps_register_step del: append_lines.simps)
  moreover have "last (section_lines out st') =
               Fields ('''' #
                       (if step_keyword stp = ''* '' then rewrite_text (step_text stp)
                        else tr E (step_keyword stp) (Some (step_keyword stp))
                             @ rewrite_text (step_text stp)) # (case arg of None \<Rightarrow> [] | Some v \<Rightarrow> [v]))"
    unfolding s by (simp del: append_lines.simps)
  ultimately show ?thesis by blast
qed

theorem add_step_registers_rewritten_text_witness:
  "add_step english_env TestCases (plain_step ''Given '' ''a user exists'') initial_state =
     Inr \<lparr>settings_lines = [], test_cases_lines = [Fields ['''', ''Given a user exists'']],
          keywords_lines = [], seen_steps = [(''a user exists'', None)],
          background_available = False\<rparr>
   \<and> (\<exists>arg. seen_steps \<lparr>settings_lines = [], test_cases_lines = [Fields ['''', ''Given a user exists'']],
          keywords_lines = [], seen_steps = [(''a user exists'', None)],
          background_available = False\<rparr> = [(''a user exists'', arg)])
   \<and> (\<exists>rest. last (section_lines TestCases
          \<lparr>settings_lines = [], test_cases_lines = [Fields ['''', ''Given a user exists'']],
           keywords_lines = [], seen_steps = [(''a user exists'', None)],
           background_available = False\<rparr>) = Fields ('''' # ''Given a user exists'' # rest))"
proof -
  have a: "add_step english_env TestCases (plain_step ''Given '' ''a user exists'') initial_state =
     Inr \<lparr>settings_lines = [], test_cases_lines = [Fields ['''', ''Given a user exists'']],
          keywords_lines = [], seen_steps = [(''a user exists'', None)],
          background_available = False\<rparr>"
    by (simp add: add_step_def Let_def plain_step_def initial_state_def english_env_def english_tr_def
        english_table_def rewrite_text_def register_step_def)
  have b: "rewrite_text (step_text (plain_step ''Given '' ''a user exists'')) = ''a user exists''"
    "seen_steps initial_state = []"
    "step_keyword (plain_step ''Given '' ''a user exists'') = ''Given ''"
    "tr english_env ''Given '' (Some ''Given '') = ''Given ''"
    by (simp_all add: plain_step_def rewrite_text_def initial_state_def english_env_def
        english_tr_def english_table_def)
  from add_step_registers_rewritten_text [OF a] show ?thesis
    unfolding b using a by simp
qed

theorem registry_key_counterexample:
  "add_step english_env TestCases (plain_step ''Given '' ''a user exists'') initial_state =
     Inr \<lparr>settings_lines = [], test_cases_lines = [Fields ['''', ''Given a user exists'']],
          keywords_lines = [], seen_steps = [(''a user exists'', None)],
          background_available = False\<rparr>
   \<and> step_keyword (plain_step ''Given '' ''a user exists'') \<noteq> ''* ''
   \<and> tr english_env ''Given '' (Some ''Given '') @ rewrite_text ''a user exists''
       = ''Given a user exists''"
  by (simp add: add_step_def Let_def plain_step_def initial_state_def english_env_def english_tr_def
      english_table_def rewrite_text_def register_step_def)

lemma replace_char_append:
  "replace_char c r (xs @ ys) = replace_char c r xs @ replace_char c r ys"
  by (induction xs) simp_all

lemma rewrite_text_chars:
  "rewrite_text t =
     concat (map (\<lambda>c. if c = CHR ''<'' then ''${'' else if c = CHR ''>'' then ''}'' else [c]) t)"
  by (induction t) (simp_all add: rewrite_text_def replace_char_append)

lemma outline_value_is_amount:
  "process_scenario_outline english_env
     (outline ''Amounts'' [plain_step ''Then '' ''the value is <amount>'']
        [example_block '''' 3 [''amount''] [[''5'']]]) initial_state =
     Inr \<lparr>settings_lines = [],
          test_cases_lines =
            [Fields ['''', ''[Template]'', ''Scenario Outline Amounts''], Fields ['''', ''5''], Str ''''],
          keywords_lines =
            [Str ''Scenario Outline Amounts'', Fields ['''', ''[Arguments]'', ''${amount}''],
             Fields ['''', ''Then the value is ${amount}''], Str ''''],
          seen_steps = [(''the value is ${amount}'', None)],
          background_available = False\<rparr>"
  by (simp add: process_scenario_outline_def outline_def plain_step_def example_block_def
      initial_state_def Let_def variable_end_def is_alnum_def is_alpha_def is_digit_def
      outline_example_def test_case_name_def outline_keyword_name_def english_env_def
      english_tr_def english_table_def make_empty_def add_step_def rewrite_text_def
      register_step_def)

text \<open>
  C7, as amended. The rendered text is the source text with every \<^verbatim>\<open><\<close> replaced by
  \<^verbatim>\<open>${\<close> and every \<^verbatim>\<open>>\<close> replaced by \<^verbatim>\<open>}\<close>, whether or not the two delimit a
  placeholder, and every other character unchanged. It is a key of the step registry after
  the step was added, and the text of the emitted call ends with it. The outline step
  \<^verbatim>\<open>the value is <amount>\<close> is rendered as \<^verbatim>\<open>the value is ${amount}\<close> in the body
  of the synthesized keyword and as the key of the registry.
\<close>

theorem rewrite_text_replaces_every_bracket:
  "rewrite_text t =
     concat (map (\<lambda>c. if c = CHR ''<'' then ''${'' else if c = CHR ''>'' then ''}'' else [c]) t)
   \<and> (add_step E out stp st = Inr st' \<longrightarrow>
        rewrite_text (step_text stp) \<in> fst ` set (seen_steps st') \<and>
        (\<exists>verb rest. last (section_lines out st') =
           Fields ('''' # (verb @ rewrite_text (step_text stp)) # rest)))
   \<and> process_scenario_outline english_env
       (outline ''Amounts'' [plain_step ''Then '' ''the value is <amount>'']
          [example_block '''' 3 [''amount''] [[''5'']]]) initial_state =
       Inr \<lparr>settings_lines = [],
            test_cases_lines =
              [Fields ['''', ''[Template]'', ''Scenario Outline Amounts''], Fields ['''', ''5''], Str ''''],
            keywords_lines =
              [Str ''Scenario Outline Amounts'', Fields ['''', ''[Arguments]'', ''${amount}''],
               Fields ['''', ''Then the value is ${amount}''], Str ''''],
            seen_steps = [(''the value is ${amount}'', None)],
            background_available = False\<rparr>"
proof (intro conjI impI)
  show "rewrite_text t =
     concat (map (\<lambda>c. if c = CHR ''<'' then ''${'' else if c = CHR ''>'' then ''}'' else [c]) t)"
    by (rule rewrite_text_chars)
next
  assume a: "add_step E out stp st = Inr st'"
  from add_step_shape [OF a] obtain lines arg where
    s: "st' = append_line out
                   (Fields (['''', if step_keyword stp = ''* '' then rewrite_text (step_text stp)
                                   else tr E (step_keyword stp) (Some (step_keyword stp))
                                        @ rewrite_text (step_text stp)]
                            @ (case arg of None \<Rightarrow> [] | Some v \<Rightarrow> [v])))
                   (register_step (rewrite_text (step_text stp)) arg (append_lines out lines st))"
    by blast
  show "rewrite_text (step_text stp) \<in> fst ` set (seen_steps st')"
    unfolding s by (simp add: seen_steps_register_step del: append_lines.simps)
  have "last (section_lines out st') =
          Fields ('''' # ((if step_keyword stp = ''* '' then []
                         else tr E (step_keyword stp) (Some (step_keyword stp)))
                        @ rewrite_text (step_text stp))
                     # (case arg of None \<Rightarrow> [] | Some v \<Rightarrow> [v]))"
    unfolding s by (simp del: append_lines.simps)
  then show "\<exists>verb rest. last (section_lines out st') =
           Fields ('''' # (verb @ rewrite_text (step_text stp)) # rest)"
    by blast
next
  show "process_scenario_outline english_env
       (outline ''Amounts'' [plain_step ''Then '' ''the value is <amount>'']
          [example_block '''' 3 [''amount''] [[''5'']]]) initial_state =
       Inr \<lparr>settings_lines = [],
            test_cases_lines =
              [Fields ['''', ''[Template]'', ''Scenario Outline Amounts''], Fields ['''', ''5''], Str ''''],
            keywords_lines =
              [Str ''Scenario Outline Amounts'', Fields ['''', ''[Arguments]'', ''${amount}''],
               Fields ['''', ''Then the value is ${amount}''], Str ''''],
            seen_steps = [(''the value is ${amount}'', None)],
            background_available = False\<rparr>"
    by (rule outline_value_is_amount)
qed

theorem rewrite_text_replaces_every_bracket_witness:
  "add_step english_env Keywords (plain_step ''Then '' ''the value is <amount>'') initial_state =
     Inr \<lparr>settings_lines = [], test_cases_lines = [],
          keywords_lines = [Fields ['''', ''Then the value is ${amount}'']],
          seen_steps = [(''the value is ${amount}'', None)],
          background_available = False\<rparr>
   \<and> rewrite_text (step_text (plain_step ''Then '' ''the value is <amount>''))
       \<in> fst ` set (seen_steps
            \<lparr>settings_lines = [], test_cases_lines = [],
             keywords_lines = [Fields ['''', ''Then the value is ${amount}'']],
             seen_steps = [(''the value is ${amount}'', None)],
             background_available = False\<rparr>)"
proof -
  have a: "add_step english_env Keywords (plain_step ''Then '' ''the value is <amount>'') initial_state =
     Inr \<lparr>settings_lines = [], test_cases_lines = [],
          keywords_lines = [Fields ['''', ''Then the value is ${amount}'']],
          seen_steps = [(''the value is ${amount}'', None)],
          background_available = False\<rparr>"
    by (simp add: add_step_def Let_def plain_step_def initial_state_def english_env_def english_tr_def
        english_table_def rewrite_text_def register_step_def)
  from rewrite_text_replaces_every_bracket
    [where E = english_env and out = Keywords
       and stp = "plain_step ''Then '' ''the value is <amount>''" and st = initial_state] a
  show ?thesis by blast
qed

theorem stray_bracket_counterexample:
  "add_step english_env Keywords (plain_step ''Then '' ''the value is > 5'') initial_state =
     Inr \<lparr>settings_lines = [], test_cases_lines = [],
          keywords_lines = [Fields ['''', ''Then the value is } 5'']],
          seen_steps = [(''the value is } 5'', None)],
          background_available = False\<rparr>
   \<and> findall_variables ''the value is > 5'' = []"
  by (simp add: add_step_def Let_def plain_step_def initial_state_def english_env_def english_tr_def
      english_table_def rewrite_text_def register_step_def)

subsection \<open>Template matching\<close>


lemma keyword_found_returns:
  "\<forall>(lit, rx) \<in> set kw. \<exists>r. re_compile rx = Inr r \<Longrightarrow> \<exists>b. keyword_found k kw ff = Inr b"
proof (induction kw arbitrary: ff)
  case Nil
  then show ?case by simp
next
  case (Cons t kw)
  obtain lit rx where t: "t = (lit, rx)" by (cases t)
  from Cons.prems t obtain r where r: "re_compile rx = Inr r" by auto
  from Cons.prems have "\<forall>(lit, rx) \<in> set kw. \<exists>r. re_compile rx = Inr r" by simp
  from Cons.IH [OF this] have ih: "\<exists>b. keyword_found k kw ff' = Inr b" for ff' .
  show ?case
  proof (cases "k = lit")
    case True
    with ih [of True] t show ?thesis by simp
  next
    case False
    with ih [of "if re_match r k then True else ff"] t r show ?thesis by simp
  qed
qed

































subsection \<open>Keywords without placeholders\<close>

lemma not_special_chars:
  assumes "\<not> is_special c"
  shows "c \<noteq> CHR ''$''" "c \<noteq> CHR ''(''" "c \<noteq> CHR '')''" "c \<noteq> CHR ''*''" "c \<noteq> CHR ''.''"
  using assms by (auto simp: is_special_def)

lemma re_sub_plain: "\<forall>c \<in> set lit. \<not> is_special c \<Longrightarrow> re_sub lit = lit"
  by (induction lit) (simp_all add: not_special_chars)

lemma re_parse_plain:
  "\<forall>c \<in> set lit. \<not> is_special c \<Longrightarrow>
   re_parse lit acc 0 l = Inr (rev acc @ map (\<lambda>c. One (Lit c)) lit)"
  by (induction lit arbitrary: acc l) (simp_all add: not_special_chars)

lemma re_match_plain: "re_match (map (\<lambda>c. One (Lit c)) lit) k = startswith k lit"
proof (induction lit arbitrary: k)
  case Nil
  then show ?case by simp
next
  case (Cons c lit)
  then show ?case by (cases k) auto
qed

lemma startswith_refl: "startswith s s"
  by (induction s) simp_all

lemma startswith_append: "startswith s p = (\<exists>rest. s = p @ rest)"
proof (induction s p rule: startswith.induct)
  case (1 s)
  then show ?case by simp
next
  case (2 p ps)
  then show ?case by simp
next
  case (3 x xs p ps)
  then show ?case by auto
qed

text \<open>
  C8, as amended. For a keyword whose literal has no placeholder and no character that is
  special in a regular expression, the match rule is a test for a prefix, not for
  equality: the step is classified as satisfied by the keyword exactly when its text starts
  with the literal.
\<close>

theorem plain_keyword_matches_prefix:
  assumes "\<forall>c \<in> set lit. \<not> is_special c"
  shows "re_sub lit = lit
         \<and> keyword_found k [(lit, re_sub lit)] False = Inr (\<exists>rest. k = lit @ rest)"
proof -
  from assms have s: "re_sub lit = lit" by (rule re_sub_plain)
  from assms have c: "re_compile lit = Inr (map (\<lambda>c. One (Lit c)) lit)"
    by (simp add: re_compile_def re_parse_plain)
  have "keyword_found k [(lit, lit)] False = Inr (startswith k lit)"
    by (simp add: c re_match_plain startswith_refl)
  with s show ?thesis by (simp add: startswith_append)
qed

theorem plain_keyword_matches_prefix_witness:
  "(\<forall>c \<in> set ''Given a user''. \<not> is_special c) = True
   \<and> re_sub ''Given a user'' = ''Given a user''
   \<and> keyword_found ''Given a user exists'' [(''Given a user'', re_sub ''Given a user'')] False
       = Inr (\<exists>rest. ''Given a user exists'' = ''Given a user'' @ rest)"
proof -
  have a: "\<forall>c \<in> set ''Given a user''. \<not> is_special c"
    by (simp add: is_special_def backslash_def)
  from plain_keyword_matches_prefix [OF a, of "''Given a user exists''"] a show ?thesis
    by simp
qed

theorem plain_keyword_counterexample:
  "read_keywords_from_resource english_env users_resource = [(''Given a user'', ''Given a user'')]
   \<and> keyword_found ''Given a user exists''
        (read_keywords_from_resource english_env users_resource) False = Inr True
   \<and> ''Given a user exists'' \<noteq> ''Given a user''"
proof -
  have r: "read_keywords_from_resource english_env users_resource = [(''Given a user'', ''Given a user'')]"
    by (simp add: read_keywords_from_resource_def users_resource_def newline_def strip_def
        is_space_def english_env_def english_tr_def english_table_def)
  have c: "re_compile ''Given a user'' = Inr (map (\<lambda>c. One (Lit c)) ''Given a user'')"
    by (simp add: re_compile_def is_special_def backslash_def)
  have "keyword_found ''Given a user exists'' [(''Given a user'', ''Given a user'')] False = Inr True"
    by (simp add: c)
  with r show ?thesis by simp
qed

subsection \<open>Creating the resource\<close>

lemma write_stubs_concat:
  "write_stubs E steps f =
     f @ concat (map (\<lambda>(k, v).
                  k @ [newline]
                  @ (if truthy v
                     then ''    ['' @ tr E ''arguments'' None @ '']    '' @ the v @ [newline]
                     else [])
                  @ ''    Fail    Keyword '' @ [dquote] @ k @ [dquote] @ '' Not Implemented Yet''
                  @ [newline, newline]) steps)"
proof (induction steps arbitrary: f)
  case Nil
  then show ?case by simp
next
  case (Cons kv steps)
  obtain k v where kv: "kv = (k, v)" by (cases kv)
  show ?case
    unfolding kv
    by (simp add: Cons.IH Let_def write_to_script_def FIELD_SEP_def not_implemented_def)
qed

lemma two_steps_feature:
  "process_feature english_env
     (feature_of ''Login''
        [Scenario \<lparr>sc_keyword = ''Scenario'', sc_name = ''Valid user'', sc_description = None,
                   sc_tags = [],
                   sc_steps = [plain_step ''Given '' ''a user exists'',
                               plain_step ''When '' ''the user logs in''],
                   sc_examples = []\<rparr>]) initial_state =
     Inr \<lparr>settings_lines = [],
          test_cases_lines =
            [Str ''Valid user'', Fields ['''', ''Given a user exists''],
             Fields ['''', ''When the user logs in''], Str ''''],
          keywords_lines = [],
          seen_steps = [(''a user exists'', None), (''the user logs in'', None)],
          background_available = False\<rparr>"
  by (simp add: process_feature_def feature_of_def initial_state_def process_scenario_def
      process_scenario_plain_def plain_step_def Let_def add_step_def rewrite_text_def
      register_step_def english_env_def english_tr_def english_table_def)

lemma two_steps_resource:
  "\<exists>fs'. process_gherkin english_env
     (feature_of ''Login''
        [Scenario \<lparr>sc_keyword = ''Scenario'', sc_name = ''Valid user'', sc_description = None,
                   sc_tags = [],
                   sc_steps = [plain_step ''Given '' ''a user exists'',
                               plain_step ''When '' ''the user logs in''],
                   sc_examples = []\<rparr>]) ''out'' Map.empty = Inr (fs', [])
     \<and> fs' ''out/login_step_definitions.resource'' =
         Some (''*** Settings ***'' @ [newline]
               @ ''Documentation    Generated by    _gherkin2robotframework on 2024-01-01T00:00:01_''
               @ [newline]
               @ ''Library    Collections'' @ [newline]
               @ [newline] @ ''*** Keywords ***'' @ [newline]
               @ ''a user exists'' @ [newline]
               @ ''    Fail    Keyword '' @ [dquote] @ ''a user exists'' @ [dquote]
               @ '' Not Implemented Yet'' @ [newline, newline]
               @ ''the user logs in'' @ [newline]
               @ ''    Fail    Keyword '' @ [dquote] @ ''the user logs in'' @ [dquote]
               @ '' Not Implemented Yet'' @ [newline, newline])"
  apply (simp only: process_gherkin_def two_steps_feature sum.case)
  apply (simp add: generate_robot_script_def
      generate_robot_script_resource_def Let_def os_path_join_def file_name_of_def lower_char_def
      feature_of_def english_env_def english_tr_def english_table_def write_to_script_def
      FIELD_SEP_def generated_by_def apply_resource_settings_def apply_feature_settings_def
      apply_settings_def not_implemented_def)
  done

text \<open>
  C6. When the resource file is absent, a file is written whose text is a header that
  does not depend on the step registry, followed, for every entry of the registry in the
  order of insertion, by a stub: the registered text as the name of the keyword, an
  arguments line exactly when the entry holds an argument variable, the line that fails
  with \<^verbatim>\<open>Keyword "<text>" Not Implemented Yet\<close>, and an empty line. Nothing is printed.
  For a feature with one scenario of the steps \<^verbatim>\<open>Given a user exists\<close> and
  \<^verbatim>\<open>When the user logs in\<close> the new resource holds exactly two stubs.
\<close>

theorem new_resource_has_a_stub_for_every_entry:
  "(fs (os_path_join path res) = None \<longrightarrow>
     (\<exists>header. \<forall>st.
        generate_robot_script_resource E path res st fs =
          Inr (fs(os_path_join path res \<mapsto>
                 header @ concat (map (\<lambda>(k, v).
                    k @ [newline]
                    @ (if truthy v
                       then ''    ['' @ tr E ''arguments'' None @ '']    '' @ the v @ [newline]
                       else [])
                    @ ''    Fail    Keyword '' @ [dquote] @ k @ [dquote] @ '' Not Implemented Yet''
                    @ [newline, newline]) (seen_steps st))), [])))
   \<and> (\<exists>fs'. process_gherkin english_env
         (feature_of ''Login''
            [Scenario \<lparr>sc_keyword = ''Scenario'', sc_name = ''Valid user'', sc_description = None,
                       sc_tags = [],
                       sc_steps = [plain_step ''Given '' ''a user exists'',
                                   plain_step ''When '' ''the user logs in''],
                       sc_examples = []\<rparr>]) ''out'' Map.empty = Inr (fs', [])
         \<and> fs' ''out/login_step_definitions.resource'' =
             Some (''*** Settings ***'' @ [newline]
                   @ ''Documentation    Generated by    _gherkin2robotframework on 2024-01-01T00:00:01_''
                   @ [newline]
                   @ ''Library    Collections'' @ [newline]
                   @ [newline] @ ''*** Keywords ***'' @ [newline]
                   @ ''a user exists'' @ [newline]
                   @ ''    Fail    Keyword '' @ [dquote] @ ''a user exists'' @ [dquote]
                   @ '' Not Implemented Yet'' @ [newline, newline]
                   @ ''the user logs in'' @ [newline]
                   @ ''    Fail    Keyword '' @ [dquote] @ ''the user logs in'' @ [dquote]
                   @ '' Not Implemented Yet'' @ [newline, newline]))"
proof (intro conjI impI)
  assume a: "fs (os_path_join path res) = None"
  let ?header = "write_to_script
       (write_to_script
         (write_to_script
           (apply_resource_settings E fs
             (write_to_script
               (if language E \<noteq> ''en''
                then write_to_script [] (Str (''Language: '' @ language E @ [newline])) else [])
               (Str (tr E ''settings_section'' None))))
           (Fields [tr E ''documentation'' None, ''Generated by'', generated_by (resource_time E)]))
         (Fields [tr E ''library'' None, ''Collections'']))
       (Str ([newline] @ tr E ''keywords_section'' None))"
  have "\<forall>st. generate_robot_script_resource E path res st fs =
          Inr (fs(os_path_join path res \<mapsto>
                 ?header @ concat (map (\<lambda>(k, v).
                    k @ [newline]
                    @ (if truthy v
                       then ''    ['' @ tr E ''arguments'' None @ '']    '' @ the v @ [newline]
                       else [])
                    @ ''    Fail    Keyword '' @ [dquote] @ k @ [dquote] @ '' Not Implemented Yet''
                    @ [newline, newline]) (seen_steps st))), [])"
    using a by (simp add: generate_robot_script_resource_def Let_def write_stubs_concat)
  then show "\<exists>header. \<forall>st.
        generate_robot_script_resource E path res st fs =
          Inr (fs(os_path_join path res \<mapsto>
                 header @ concat (map (\<lambda>(k, v).
                    k @ [newline]
                    @ (if truthy v
                       then ''    ['' @ tr E ''arguments'' None @ '']    '' @ the v @ [newline]
                       else [])
                    @ ''    Fail    Keyword '' @ [dquote] @ k @ [dquote] @ '' Not Implemented Yet''
                    @ [newline, newline]) (seen_steps st))), [])"
    by blast
next
  show "\<exists>fs'. process_gherkin english_env
         (feature_of ''Login''
            [Scenario \<lparr>sc_keyword = ''Scenario'', sc_name = ''Valid user'', sc_description = None,
                       sc_tags = [],
                       sc_steps = [plain_step ''Given '' ''a user exists'',
                                   plain_step ''When '' ''the user logs in''],
                       sc_examples = []\<rparr>]) ''out'' Map.empty = Inr (fs', [])
         \<and> fs' ''out/login_step_definitions.resource'' =
             Some (''*** Settings ***'' @ [newline]
                   @ ''Documentation    Generated by    _gherkin2robotframework on 2024-01-01T00:00:01_''
                   @ [newline]
                   @ ''Library    Collections'' @ [newline]
                   @ [newline] @ ''*** Keywords ***'' @ [newline]
                   @ ''a user exists'' @ [newline]
                   @ ''    Fail    Keyword '' @ [dquote] @ ''a user exists'' @ [dquote]
                   @ '' Not Implemented Yet'' @ [newline, newline]
                   @ ''the user logs in'' @ [newline]
                   @ ''    Fail    Keyword '' @ [dquote] @ ''the user logs in'' @ [dquote]
                   @ '' Not Implemented Yet'' @ [newline, newline])"
    by (rule two_steps_resource)
qed

theorem new_resource_has_a_stub_for_every_entry_witness:
  "(Map.empty :: filesystem) (os_path_join ''out'' ''t.resource'') = None
   \<and> (\<exists>header.
        generate_robot_script_resource english_env ''out'' ''t.resource''
          (registry_of [(''users'', Some DataTable_ref), (''a user exists'', None)]) Map.empty =
          Inr ([os_path_join ''out'' ''t.resource'' \<mapsto>
                 header @ concat (map (\<lambda>(k, v).
                    k @ [newline]
                    @ (if truthy v
                       then ''    ['' @ tr english_env ''arguments'' None @ '']    '' @ the v @ [newline]
                       else [])
                    @ ''    Fail    Keyword '' @ [dquote] @ k @ [dquote] @ '' Not Implemented Yet''
                    @ [newline, newline])
                    (seen_steps (registry_of [(''users'', Some DataTable_ref), (''a user exists'', None)])))],
               []))"
proof -
  have a: "(Map.empty :: filesystem) (os_path_join ''out'' ''t.resource'') = None"
    by simp
  from new_resource_has_a_stub_for_every_entry
    [where fs = Map.empty and path = "''out''" and res = "''t.resource''" and E = english_env] a
  show ?thesis by blast
qed

subsection \<open>Reconciling leaves the resource as it is\<close>










subsection \<open>Scenario outlines\<close>

lemma keywords_append_lines_Keywords [simp]:
  "keywords_lines (append_lines Keywords lns st) = keywords_lines st @ lns"
  by (induction lns arbitrary: st) simp_all

lemma keywords_register_step [simp]:
  "keywords_lines (register_step k v st) = keywords_lines st"
  by (simp add: register_step_def)

lemma keywords_process_tags [simp]: "keywords_lines (process_tags E tags st) = keywords_lines st"
  by (simp add: process_tags_def)

lemma keywords_add_test_case_documentation [simp]:
  "keywords_lines (add_test_case_documentation E d st) = keywords_lines st"
  by (simp add: add_test_case_documentation_def split: list.splits)

lemma keywords_example_rows:
  "example_rows hc header rows st = Inr st' \<Longrightarrow> keywords_lines st' = keywords_lines st"
proof (induction rows arbitrary: st)
  case Nil
  then show ?case by simp
next
  case (Cons r rows)
  from Cons.prems obtain args where
    "example_rows hc header rows (append_line TestCases (Fields ([''''] @ map make_empty args)) st)
       = Inr st'"
    by (auto split: sum.splits)
  from Cons.IH [OF this] show ?case by simp
qed

lemma outline_example_result:
  assumes "outline_example E sc variables ex st = Inr (st', header)"
  shows "header = map cell_value (ex_tableHeader ex)"
    and "keywords_lines st' = keywords_lines st"
    and "\<not> list_ex (\<lambda>v. v \<notin> set (map cell_value (ex_tableHeader ex))) variables"
proof -
  from assms show "header = map cell_value (ex_tableHeader ex)"
    by (auto simp: outline_example_def Let_def split: if_splits sum.splits)
  from assms show "\<not> list_ex (\<lambda>v. v \<notin> set (map cell_value (ex_tableHeader ex))) variables"
    by (auto simp: outline_example_def Let_def split: if_splits sum.splits)
  from assms obtain st3 st4 where
    r: "example_rows (build_header_col (map cell_value (ex_tableHeader ex)) 0 Map.empty)
          (map cell_value (ex_tableHeader ex)) (ex_tableBody ex) st3 = Inr st4"
    and k: "keywords_lines st3 = keywords_lines st"
    and s: "st' = append_line TestCases (Str '''') st4"
    by (auto simp: outline_example_def Let_def split: if_splits sum.splits option.splits)
  from keywords_example_rows [OF r] k s show "keywords_lines st' = keywords_lines st"
    by simp
qed

lemma outline_example_missing:
  assumes "list_ex (\<lambda>v. v \<notin> set (map cell_value (ex_tableHeader ex))) variables"
  shows "outline_example E sc variables ex st = Inl (RuntimeWarning (ex_name ex))"
  using assms by (simp add: outline_example_def Let_def)

lemma outline_examples_append:
  "outline_examples E sc variables (xs @ ys) header st =
     (case outline_examples E sc variables xs header st of
        Inl e \<Rightarrow> Inl e
      | Inr (st1, header1) \<Rightarrow> outline_examples E sc variables ys header1 st1)"
  by (induction xs arbitrary: header st) (auto split: sum.splits)

lemma outline_examples_result:
  assumes "outline_examples E sc variables exs header st = Inr (st', header')"
  shows "keywords_lines st' = keywords_lines st"
    and "header' = (if exs = [] then header else Some (map cell_value (ex_tableHeader (last exs))))"
    and "\<forall>ex \<in> set exs. \<not> list_ex (\<lambda>v. v \<notin> set (map cell_value (ex_tableHeader ex))) variables"
  using assms
proof (induction exs arbitrary: header st)
  case Nil
  {
    case 1
    then show ?case by simp
  next
    case 2
    then show ?case by simp
  next
    case 3
    then show ?case by simp
  }
next
  case (Cons ex exs)
  {
    case 1
    then obtain st1 h1 where a: "outline_example E sc variables ex st = Inr (st1, h1)"
      and b: "outline_examples E sc variables exs (Some h1) st1 = Inr (st', header')"
      by (auto split: sum.splits)
    from Cons.IH(1) [OF b] outline_example_result(2) [OF a] show ?case by simp
  next
    case 2
    then obtain st1 h1 where a: "outline_example E sc variables ex st = Inr (st1, h1)"
      and b: "outline_examples E sc variables exs (Some h1) st1 = Inr (st', header')"
      by (auto split: sum.splits)
    from Cons.IH(2) [OF b] outline_example_result(1) [OF a] show ?case by simp
  next
    case 3
    then obtain st1 h1 where a: "outline_example E sc variables ex st = Inr (st1, h1)"
      and b: "outline_examples E sc variables exs (Some h1) st1 = Inr (st', header')"
      by (auto split: sum.splits)
    from Cons.IH(3) [OF b] outline_example_result(3) [OF a] show ?case by simp
  }
qed

lemma keywords_add_keyword_documentation:
  "keywords_lines (add_keyword_documentation E d st) =
     keywords_lines st
     @ (if d = [] then []
        else (case split_on newline (strip d) of
                [] \<Rightarrow> []
              | d0 # ds \<Rightarrow>
                  Fields ['''', ''['' @ tr E ''documentation'' None @ '']'', d0]
                  # map (\<lambda>doc. Fields ['''', ''...'', strip doc]) ds))"
  by (simp add: add_keyword_documentation_def split: list.splits)

lemma keywords_add_step:
  assumes "add_step E Keywords stp st = Inr st'"
  shows "\<exists>post. keywords_lines st' = keywords_lines st @ post"
proof -
  from add_step_shape [OF assms] obtain lines arg c where
    "st' = append_line Keywords c
             (register_step (rewrite_text (step_text stp)) arg (append_lines Keywords lines st))"
    by blast
  then have "keywords_lines st' = keywords_lines st @ lines @ [c]"
    by (simp del: append_lines.simps)
  then show ?thesis by blast
qed

lemma keywords_add_steps:
  "add_steps E Keywords stps st = Inr st' \<Longrightarrow> \<exists>post. keywords_lines st' = keywords_lines st @ post"
proof (induction stps arbitrary: st)
  case Nil
  then show ?case by simp
next
  case (Cons stp stps)
  from Cons.prems obtain st1 where a: "add_step E Keywords stp st = Inr st1"
    and b: "add_steps E Keywords stps st1 = Inr st'"
    by (auto split: sum.splits)
  from keywords_add_step [OF a] Cons.IH [OF b] show ?case by auto
qed

subsection \<open>When the translation of an outline returns\<close>

lemma build_header_col_bound:
  assumes "\<forall>a i. header_col a = Some i \<longrightarrow> i < n"
  shows "\<forall>a i. build_header_col vs n header_col a = Some i \<longrightarrow> i < n + length vs"
  using assms
proof (induction vs arbitrary: n header_col)
  case Nil
  then show ?case by simp
next
  case (Cons v vs)
  have "\<forall>a i. (header_col(v \<mapsto> n)) a = Some i \<longrightarrow> i < Suc n"
    using Cons.prems by (auto simp: less_Suc_eq)
  with Cons.IH [where header_col = "header_col(v \<mapsto> n)" and n = "Suc n"] show ?case
    by (simp del: fun_upd_apply)
qed

lemma build_header_col_dom:
  "a \<in> set vs \<or> a \<in> dom header_col \<Longrightarrow> a \<in> dom (build_header_col vs n header_col)"
proof (induction vs arbitrary: n header_col)
  case Nil
  then show ?case by simp
next
  case (Cons v vs)
  from Cons.prems have "a \<in> set vs \<or> a \<in> dom (header_col(v \<mapsto> n))"
    by auto
  with Cons.IH [where header_col = "header_col(v \<mapsto> n)" and n = "Suc n"] show ?case
    by (simp del: fun_upd_apply dom_fun_upd)
qed

lemma header_col_lookup:
  assumes "a \<in> set header"
  shows "\<exists>i. build_header_col header 0 Map.empty a = Some i \<and> i < length header"
proof -
  from assms have "a \<in> dom (build_header_col header 0 Map.empty)"
    by (simp add: build_header_col_dom)
  then obtain i where i: "build_header_col header 0 Map.empty a = Some i"
    by blast
  have "\<forall>a i. (Map.empty :: string \<rightharpoonup> nat) a = Some i \<longrightarrow> i < 0"
    by simp
  from build_header_col_bound [OF this, of header] i have "i < length header"
    by fastforce
  with i show ?thesis by blast
qed

lemma row_args_returns:
  assumes "\<forall>a \<in> set as. \<exists>i. header_col a = Some i \<and> i < length cells"
  shows "\<exists>args. row_args header_col cells as = Inr args"
  using assms
proof (induction as)
  case Nil
  then show ?case by simp
next
  case (Cons a as)
  from Cons.prems obtain i where i: "header_col a = Some i" "i < length cells"
    by auto
  from Cons.prems have "\<forall>a \<in> set as. \<exists>i. header_col a = Some i \<and> i < length cells"
    by simp
  from Cons.IH [OF this] obtain args where "row_args header_col cells as = Inr args"
    by blast
  with i show ?case by simp
qed

lemma example_rows_returns:
  assumes "\<forall>r \<in> set rows. length header \<le> length (row_cells r)"
  shows "\<exists>st'. example_rows (build_header_col header 0 Map.empty) header rows st = Inr st'"
  using assms
proof (induction rows arbitrary: st)
  case Nil
  then show ?case by simp
next
  case (Cons r rows)
  have "\<forall>a \<in> set header. \<exists>i. build_header_col header 0 Map.empty a = Some i
          \<and> i < length (row_cells r)"
  proof
    fix a
    assume "a \<in> set header"
    from header_col_lookup [OF this] obtain i where
      "build_header_col header 0 Map.empty a = Some i" "i < length header"
      by blast
    moreover from Cons.prems have "length header \<le> length (row_cells r)"
      by simp
    ultimately show "\<exists>i. build_header_col header 0 Map.empty a = Some i
          \<and> i < length (row_cells r)"
      by fastforce
  qed
  from row_args_returns [OF this] obtain args where
    a: "row_args (build_header_col header 0 Map.empty) (row_cells r) header = Inr args"
    by blast
  from Cons.prems have "\<forall>r \<in> set rows. length header \<le> length (row_cells r)"
    by simp
  from Cons.IH [OF this] a show ?case by simp
qed

lemma outline_example_returns:
  assumes "set variables \<subseteq> cell_value ` set (ex_tableHeader ex)"
    and "\<forall>r \<in> set (ex_tableBody ex). length (ex_tableHeader ex) \<le> length (row_cells r)"
  shows "\<exists>st' header. outline_example E sc variables ex st = Inr (st', header)"
proof -
  let ?header = "map cell_value (ex_tableHeader ex)"
  let ?st1 = "case ex_description ex of
                Some d \<Rightarrow> add_test_case_documentation E d st
              | None \<Rightarrow> st"
  let ?st2 = "if sc_tags sc @ ex_tags ex \<noteq> []
              then process_tags E (sc_tags sc @ ex_tags ex) ?st1 else ?st1"
  let ?st3 = "append_line TestCases
                (Fields [[], ''['' @ tr E ''template'' None @ '']'', outline_keyword_name E sc]) ?st2"
  from assms(1) have n: "\<not> list_ex (\<lambda>v. v \<notin> set ?header) variables"
    by (auto simp: list_ex_iff)
  from assms(2) have "\<forall>r \<in> set (ex_tableBody ex). length ?header \<le> length (row_cells r)"
    by simp
  from example_rows_returns [OF this, of ?st3] obtain st4 where
    r: "example_rows (build_header_col ?header 0 Map.empty) ?header (ex_tableBody ex) ?st3 = Inr st4"
    by blast
  have "outline_example E sc variables ex st = Inr (append_line TestCases (Str []) st4, ?header)"
    by (simp only: outline_example_def Let_def n r if_False sum.case)
  then show ?thesis by blast
qed

lemma outline_examples_returns:
  assumes "\<forall>ex \<in> set exs.
             set variables \<subseteq> cell_value ` set (ex_tableHeader ex) \<and>
             (\<forall>r \<in> set (ex_tableBody ex). length (ex_tableHeader ex) \<le> length (row_cells r))"
  shows "\<exists>st' header'. outline_examples E sc variables exs header st = Inr (st', header')"
  using assms
proof (induction exs arbitrary: header st)
  case Nil
  then show ?case by simp
next
  case (Cons ex exs)
  from Cons.prems outline_example_returns [of variables ex E sc st]
  obtain st1 h1 where a: "outline_example E sc variables ex st = Inr (st1, h1)"
    by auto
  from Cons.prems have "\<forall>ex \<in> set exs.
             set variables \<subseteq> cell_value ` set (ex_tableHeader ex) \<and>
             (\<forall>r \<in> set (ex_tableBody ex). length (ex_tableHeader ex) \<le> length (row_cells r))"
    by simp
  from Cons.IH [OF this, of "Some h1" st1] a show ?case by simp
qed

lemma add_step_returns:
  assumes "docString stp = None \<longrightarrow> (\<forall>t. dataTable stp = Some t \<longrightarrow> datatable_rows t \<noteq> [])"
  shows "\<exists>st'. add_step E out stp st = Inr st'"
proof (cases "docString stp")
  case (Some ds)
  then show ?thesis by (simp add: add_step_docstring)
next
  case None
  show ?thesis
  proof (cases "dataTable stp")
    case n: None
    with None show ?thesis by (simp add: add_step_plain)
  next
    case (Some t)
    with assms None have "datatable_rows t \<noteq> []" by simp
    from add_step_datatable [OF None Some this, of E out st] show ?thesis by blast
  qed
qed

lemma add_steps_returns:
  assumes "\<forall>stp \<in> set stps.
             docString stp = None \<longrightarrow> (\<forall>t. dataTable stp = Some t \<longrightarrow> datatable_rows t \<noteq> [])"
  shows "\<exists>st'. add_steps E out stps st = Inr st'"
  using assms
proof (induction stps arbitrary: st)
  case Nil
  then show ?case by simp
next
  case (Cons stp stps)
  from Cons.prems add_step_returns [of stp E out st]
  obtain st1 where a: "add_step E out stp st = Inr st1"
    by auto
  from Cons.prems have "\<forall>stp \<in> set stps.
             docString stp = None \<longrightarrow> (\<forall>t. dataTable stp = Some t \<longrightarrow> datatable_rows t \<noteq> [])"
    by simp
  from Cons.IH [OF this, of st1] a show ?case by simp
qed

lemma case_sum_returns:
  "\<exists>y. x = Inr y \<Longrightarrow> \<exists>z. (case x of Inl e \<Rightarrow> Inl e | Inr y \<Rightarrow> Inr (f y)) = Inr z"
  by auto

lemma process_scenario_outline_returns:
  assumes "sc_examples sc \<noteq> []"
    and "\<forall>ex \<in> set (sc_examples sc).
           set (concat (map (\<lambda>stp. findall_variables (step_text stp)) (sc_steps sc)))
             \<subseteq> cell_value ` set (ex_tableHeader ex) \<and>
           (\<forall>r \<in> set (ex_tableBody ex). length (ex_tableHeader ex) \<le> length (row_cells r))"
    and "\<forall>stp \<in> set (sc_steps sc).
           docString stp = None \<longrightarrow> (\<forall>t. dataTable stp = Some t \<longrightarrow> datatable_rows t \<noteq> [])"
  shows "\<exists>st'. process_scenario_outline E sc st = Inr st'"
proof -
  let ?vars = "concat (map (\<lambda>stp. findall_variables (step_text stp)) (sc_steps sc))"
  from outline_examples_returns [OF assms(2), of E sc None st] obtain st1 header where
    ex: "outline_examples E sc ?vars (sc_examples sc) None st = Inr (st1, header)"
    by blast
  from outline_examples_result(2) [OF ex] assms(1) obtain hdr where h: "header = Some hdr"
    by simp
  have "\<exists>st6. add_steps E Keywords (sc_steps sc) st5 = Inr st6" for st5
    using add_steps_returns [OF assms(3)] by blast
  then show ?thesis
    unfolding process_scenario_outline_def Let_def ex h
    by (simp only: sum.case prod.case option.case) (rule case_sum_returns)
qed

lemma withdraw_outline_result:
  "process_scenario_outline english_env withdraw_outline initial_state =
     Inr \<lparr>settings_lines = [],
          test_cases_lines =
            [Fields ['''', ''[Template]'', ''Scenario Outline Withdraw''],
             Fields ['''', ''10'', ''1''], Fields ['''', ''20'', ''2''],
             Fields ['''', ''30'', ''${EMPTY}''], Str '''',
             Fields ['''', ''[Template]'', ''Scenario Outline Withdraw''],
             Fields ['''', ''4'', ''40''], Fields ['''', ''5'', ''50''], Str ''''],
          keywords_lines =
            [Str ''Scenario Outline Withdraw'',
             Fields ['''', ''[Arguments]'', ''${amount}'', ''${balance}''],
             Fields ['''', ''Given the balance is ${balance}''],
             Fields ['''', ''Then the value is ${amount}''], Str ''''],
          seen_steps = [(''the balance is ${balance}'', None), (''the value is ${amount}'', None)],
          background_available = False\<rparr>"
  by (simp add: process_scenario_outline_def withdraw_outline_def outline_def plain_step_def
      example_block_def initial_state_def Let_def variable_end_def is_alnum_def is_alpha_def
      is_digit_def outline_example_def test_case_name_def outline_keyword_name_def
      english_env_def english_tr_def english_table_def make_empty_def add_step_def
      rewrite_text_def register_step_def)

text \<open>
  C9. When an outline with at least one example block is processed without an exception,
  the lines appended to the keywords are the name of the synthesized keyword, the lines
  of its documentation, and then the arguments line, which lists the header columns of the
  last example block in the order of that block; the lines of the steps follow. With no
  example block the local \<^verbatim>\<open>header\<close> is unbound when the arguments are built, and
  the function raises UnboundLocalError. The processing does return when every header
  has a column for every variable of the steps, no row is shorter than its header and
  every data table of a step has a row.
\<close>

theorem outline_arguments_are_the_last_header:
  "(sc_examples sc \<noteq> [] \<and> process_scenario_outline E sc st = Inr st' \<longrightarrow>
      (\<exists>post. keywords_lines st' =
         keywords_lines st
         @ [Str (outline_keyword_name E sc)]
         @ (case sc_description sc of
              None \<Rightarrow> []
            | Some d \<Rightarrow>
                if d = [] then []
                else (case split_on newline (strip d) of
                        [] \<Rightarrow> []
                      | d0 # ds \<Rightarrow>
                          Fields ['''', ''['' @ tr E ''documentation'' None @ '']'', d0]
                          # map (\<lambda>doc. Fields ['''', ''...'', strip doc]) ds))
         @ [Fields (['''', ''['' @ tr E ''arguments'' None @ '']'']
                    @ map (\<lambda>arg. ''${'' @ arg @ ''}'')
                        (map cell_value (ex_tableHeader (last (sc_examples sc)))))]
         @ post))
   \<and> (sc_examples sc = [] \<longrightarrow> process_scenario_outline E sc st = Inl UnboundLocalError)
   \<and> (sc_examples sc \<noteq> [] \<and>
       (\<forall>ex \<in> set (sc_examples sc).
          set (concat (map (\<lambda>stp. findall_variables (step_text stp)) (sc_steps sc)))
            \<subseteq> cell_value ` set (ex_tableHeader ex) \<and>
          (\<forall>r \<in> set (ex_tableBody ex). length (ex_tableHeader ex) \<le> length (row_cells r))) \<and>
       (\<forall>stp \<in> set (sc_steps sc).
          docString stp = None \<longrightarrow> (\<forall>t. dataTable stp = Some t \<longrightarrow> datatable_rows t \<noteq> [])) \<longrightarrow>
       (\<exists>st1. process_scenario_outline E sc st = Inr st1))"
proof (intro conjI impI)
  assume "sc_examples sc \<noteq> [] \<and>
       (\<forall>ex \<in> set (sc_examples sc).
          set (concat (map (\<lambda>stp. findall_variables (step_text stp)) (sc_steps sc)))
            \<subseteq> cell_value ` set (ex_tableHeader ex) \<and>
          (\<forall>r \<in> set (ex_tableBody ex). length (ex_tableHeader ex) \<le> length (row_cells r))) \<and>
       (\<forall>stp \<in> set (sc_steps sc).
          docString stp = None \<longrightarrow> (\<forall>t. dataTable stp = Some t \<longrightarrow> datatable_rows t \<noteq> []))"
  then show "\<exists>st1. process_scenario_outline E sc st = Inr st1"
    using process_scenario_outline_returns [of sc E st] by blast
next
  assume a: "sc_examples sc \<noteq> [] \<and> process_scenario_outline E sc st = Inr st'"
  let ?vars = "concat (map (\<lambda>stp. findall_variables (step_text stp)) (sc_steps sc))"
  let ?doc = "case sc_description sc of
              None \<Rightarrow> []
            | Some d \<Rightarrow>
                if d = [] then []
                else (case split_on newline (strip d) of
                        [] \<Rightarrow> []
                      | d0 # ds \<Rightarrow>
                          Fields ['''', ''['' @ tr E ''documentation'' None @ '']'', d0]
                          # map (\<lambda>doc. Fields ['''', ''...'', strip doc]) ds)"
  let ?args = "Fields (['''', ''['' @ tr E ''arguments'' None @ '']'']
                    @ map (\<lambda>arg. ''${'' @ arg @ ''}'')
                        (map cell_value (ex_tableHeader (last (sc_examples sc)))))"
  from a obtain st1 header where
    ex: "outline_examples E sc ?vars (sc_examples sc) None st = Inr (st1, header)"
    by (auto simp: process_scenario_outline_def Let_def split: sum.splits)
  from outline_examples_result(1,2) [OF ex] a
  have k1: "keywords_lines st1 = keywords_lines st"
    and h: "header = Some (map cell_value (ex_tableHeader (last (sc_examples sc))))"
    by simp_all
  define st3 where "st3 = (case sc_description sc of
                        Some d \<Rightarrow> add_keyword_documentation E d
                                      (append_line Keywords (Str (outline_keyword_name E sc)) st1)
                      | None \<Rightarrow> append_line Keywords (Str (outline_keyword_name E sc)) st1)"
  have k3: "keywords_lines st3 = keywords_lines st @ [Str (outline_keyword_name E sc)] @ ?doc"
    unfolding st3_def using k1
    by (simp add: keywords_add_keyword_documentation split: option.splits)
  define st5 where "st5 = (if background_available (append_line Keywords ?args st3)
                           then append_line Keywords (Fields ['''', tr E ''background'' None])
                                  (append_line Keywords ?args st3)
                           else append_line Keywords ?args st3)"
  have "\<exists>bg. keywords_lines st5 = keywords_lines st3 @ [?args] @ bg"
    unfolding st5_def by simp
  then obtain bg where k5: "keywords_lines st5 = keywords_lines st3 @ [?args] @ bg"
    by blast
  have eq: "process_scenario_outline E sc st =
      (case add_steps E Keywords (sc_steps sc) st5 of
         Inl e \<Rightarrow> Inl e
       | Inr st6 \<Rightarrow> Inr (append_line Keywords (Str '''') st6))"
    by (simp only: process_scenario_outline_def Let_def ex h st5_def st3_def
        sum.case prod.case option.case)
  from a eq obtain st6 where s6: "add_steps E Keywords (sc_steps sc) st5 = Inr st6"
    and s': "st' = append_line Keywords (Str '''') st6"
    by (cases "add_steps E Keywords (sc_steps sc) st5") auto
  from keywords_add_steps [OF s6] obtain post where "keywords_lines st6 = keywords_lines st5 @ post"
    by blast
  with s' k5 k3 have "keywords_lines st' =
      keywords_lines st @ [Str (outline_keyword_name E sc)] @ ?doc @ [?args] @ (bg @ post @ [Str ''''])"
    by simp
  then show "\<exists>post. keywords_lines st' =
         keywords_lines st @ [Str (outline_keyword_name E sc)] @ ?doc @ [?args] @ post"
    by blast
next
  assume "sc_examples sc = []"
  then show "process_scenario_outline E sc st = Inl UnboundLocalError"
    by (simp add: process_scenario_outline_def Let_def)
qed

theorem outline_arguments_are_the_last_header_witness:
  "sc_examples withdraw_outline \<noteq> []
   \<and> (\<exists>st'. process_scenario_outline english_env withdraw_outline initial_state = Inr st'
        \<and> (\<exists>post. keywords_lines st' =
              [Str ''Scenario Outline Withdraw'',
               Fields ['''', ''[Arguments]'', ''${amount}'', ''${balance}'']] @ post))
   \<and> process_scenario_outline english_env (outline ''Withdraw'' [] []) initial_state
       = Inl UnboundLocalError"
proof -
  have a: "sc_examples withdraw_outline \<noteq> []"
    by (simp add: withdraw_outline_def outline_def)
  have b: "sc_examples (outline ''Withdraw'' [] []) = []"
    by (simp add: outline_def)
  have c: "keywords_lines initial_state = []" "sc_description withdraw_outline = None"
    "outline_keyword_name english_env withdraw_outline = ''Scenario Outline Withdraw''"
    "tr english_env ''arguments'' None = ''Arguments''"
    "map cell_value (ex_tableHeader (last (sc_examples withdraw_outline))) = [''amount'', ''balance'']"
    by (simp_all add: initial_state_def withdraw_outline_def outline_def outline_keyword_name_def
        english_env_def english_tr_def english_table_def example_block_def)
  have w: "(\<forall>ex \<in> set (sc_examples withdraw_outline).
          set (concat (map (\<lambda>stp. findall_variables (step_text stp)) (sc_steps withdraw_outline)))
            \<subseteq> cell_value ` set (ex_tableHeader ex) \<and>
          (\<forall>r \<in> set (ex_tableBody ex). length (ex_tableHeader ex) \<le> length (row_cells r))) \<and>
       (\<forall>stp \<in> set (sc_steps withdraw_outline).
          docString stp = None \<longrightarrow> (\<forall>t. dataTable stp = Some t \<longrightarrow> datatable_rows t \<noteq> []))"
    by (simp add: withdraw_outline_def outline_def example_block_def plain_step_def
        variable_end_def is_alnum_def is_alpha_def is_digit_def)
  from outline_arguments_are_the_last_header
    [where sc = withdraw_outline and E = english_env and st = initial_state] a w
  obtain st' where
    r: "process_scenario_outline english_env withdraw_outline initial_state = Inr st'"
    by blast
  from outline_arguments_are_the_last_header
    [where sc = withdraw_outline and E = english_env and st = initial_state and st' = st'] a r
  have "\<exists>post. keywords_lines st' =
              [Str ''Scenario Outline Withdraw'',
               Fields ['''', ''[Arguments]'', ''${amount}'', ''${balance}'']] @ post"
    unfolding c by simp
  moreover from outline_arguments_are_the_last_header
    [where sc = "outline ''Withdraw'' [] []" and E = english_env and st = initial_state] b
  have "process_scenario_outline english_env (outline ''Withdraw'' [] []) initial_state
       = Inl UnboundLocalError"
    by blast
  ultimately show ?thesis using a r by blast
qed

subsection \<open>The test cases of an outline\<close>

lemma withdraw_names:
  "map (test_case_name withdraw_outline) (sc_examples withdraw_outline) =
     [''Withdraw: small'', ''Withdraw example line 13'']"
  by (simp add: withdraw_outline_def outline_def example_block_def test_case_name_def
      str_nat.simps digit_char_def)

text \<open>
  C5. The outline \<open>withdraw_outline\<close> has two example blocks of three and of two rows.
  Its translation appends one synthesized keyword and, for each block, a template line, the
  rows of the block and an empty line, but no line with the name of a test case: the names
  \<^verbatim>\<open>Withdraw: small\<close> and \<^verbatim>\<open>Withdraw example line 13\<close> are computed and not
  appended. The translation of a plain scenario starts the test case with its name.
\<close>

theorem outline_test_cases_lack_their_names:
  "process_scenario_outline english_env withdraw_outline initial_state =
     Inr \<lparr>settings_lines = [],
          test_cases_lines =
            [Fields ['''', ''[Template]'', ''Scenario Outline Withdraw''],
             Fields ['''', ''10'', ''1''], Fields ['''', ''20'', ''2''],
             Fields ['''', ''30'', ''${EMPTY}''], Str '''',
             Fields ['''', ''[Template]'', ''Scenario Outline Withdraw''],
             Fields ['''', ''4'', ''40''], Fields ['''', ''5'', ''50''], Str ''''],
          keywords_lines =
            [Str ''Scenario Outline Withdraw'',
             Fields ['''', ''[Arguments]'', ''${amount}'', ''${balance}''],
             Fields ['''', ''Given the balance is ${balance}''],
             Fields ['''', ''Then the value is ${amount}''], Str ''''],
          seen_steps = [(''the balance is ${balance}'', None), (''the value is ${amount}'', None)],
          background_available = False\<rparr>
   \<and> map (test_case_name withdraw_outline) (sc_examples withdraw_outline) =
       [''Withdraw: small'', ''Withdraw example line 13'']
   \<and> process_feature english_env
       (feature_of ''Login''
          [Scenario \<lparr>sc_keyword = ''Scenario'', sc_name = ''Valid user'', sc_description = None,
                     sc_tags = [],
                     sc_steps = [plain_step ''Given '' ''a user exists'',
                                 plain_step ''When '' ''the user logs in''],
                     sc_examples = []\<rparr>]) initial_state =
       Inr \<lparr>settings_lines = [],
            test_cases_lines =
              [Str ''Valid user'', Fields ['''', ''Given a user exists''],
               Fields ['''', ''When the user logs in''], Str ''''],
            keywords_lines = [],
            seen_steps = [(''a user exists'', None), (''the user logs in'', None)],
            background_available = False\<rparr>"
  using withdraw_outline_result withdraw_names two_steps_feature by blast

subsection \<open>A placeholder without a column\<close>

lemma missing_variable_list_ex:
  assumes "stp \<in> set (sc_steps sc)" "v \<in> set (findall_variables (step_text stp))"
    "v \<notin> cell_value ` set (ex_tableHeader ex)"
  shows "list_ex (\<lambda>v. v \<notin> set (map cell_value (ex_tableHeader ex)))
           (concat (map (\<lambda>stp. findall_variables (step_text stp)) (sc_steps sc)))"
  using assms by (auto simp: list_ex_iff)

lemma missing_column_error:
  assumes "ex \<in> set (sc_examples sc)" "stp \<in> set (sc_steps sc)"
    "v \<in> set (findall_variables (step_text stp))"
    "v \<notin> cell_value ` set (ex_tableHeader ex)"
  shows "\<exists>e. process_scenario_outline E sc st = Inl e"
proof (cases "process_scenario_outline E sc st")
  case (Inl e)
  then show ?thesis by blast
next
  case (Inr st')
  let ?vars = "concat (map (\<lambda>stp. findall_variables (step_text stp)) (sc_steps sc))"
  from Inr obtain st1 header where
    "outline_examples E sc ?vars (sc_examples sc) None st = Inr (st1, header)"
    by (auto simp: process_scenario_outline_def Let_def split: sum.splits)
  from outline_examples_result(3) [OF this] assms(1)
  have "\<not> list_ex (\<lambda>v. v \<notin> set (map cell_value (ex_tableHeader ex))) ?vars"
    by blast
  with missing_variable_list_ex [OF assms(2,3,4)] show ?thesis by blast
qed

lemma missing_column_first:
  assumes "sc_examples sc = ex # exs" "stp \<in> set (sc_steps sc)"
    "v \<in> set (findall_variables (step_text stp))"
    "v \<notin> cell_value ` set (ex_tableHeader ex)"
  shows "process_scenario_outline E sc st = Inl (RuntimeWarning (ex_name ex))"
  using assms(1) outline_example_missing [OF missing_variable_list_ex [OF assms(2,3,4)]]
  by (simp add: process_scenario_outline_def Let_def)

lemma process_children_error:
  assumes "c \<in> set cs"
    and "\<And>st. \<exists>e. (case c of
                       Background bg \<Rightarrow> process_background E bg st
                     | Scenario sc \<Rightarrow> process_scenario E sc st
                     | OtherChild \<Rightarrow> Inl RuntimeError) = Inl e"
  shows "\<exists>e. process_children E cs st = Inl e"
  using assms(1)
proof (induction cs arbitrary: st)
  case Nil
  then show ?case by simp
next
  case (Cons d cs)
  show ?case
  proof (cases "case d of
                  Background bg \<Rightarrow> process_background E bg st
                | Scenario sc \<Rightarrow> process_scenario E sc st
                | OtherChild \<Rightarrow> Inl RuntimeError")
    case (Inl e)
    then show ?thesis by simp
  next
    case (Inr st1)
    with assms(2) [of st] have "c \<noteq> d" by auto
    with Cons.prems have "c \<in> set cs" by simp
    from Cons.IH [OF this, of st1] Inr show ?thesis by simp
  qed
qed

lemma missing_column_feature:
  assumes "Scenario sc \<in> set (f_children f)"
    and "sc_keyword sc \<notin> set ([''Scenario''] @ split_on CHR '','' (tr E ''scenario'' None))"
    and "sc_keyword sc \<in> set ([''Scenario Outline''] @ split_on CHR '','' (tr E ''scenariooutline'' None))"
    and "ex \<in> set (sc_examples sc)" "stp \<in> set (sc_steps sc)"
    and "v \<in> set (findall_variables (step_text stp))"
    and "v \<notin> cell_value ` set (ex_tableHeader ex)"
  shows "\<exists>e. process_feature E f st = Inl e"
proof -
  have "\<exists>e. process_scenario E sc st' = Inl e" for st'
    using assms(2,3) missing_column_error [OF assms(4,5,6,7), of E st']
    by (simp add: process_scenario_def)
  then have "\<exists>e. (case Scenario sc of
                       Background bg \<Rightarrow> process_background E bg st'
                     | Scenario sc \<Rightarrow> process_scenario E sc st'
                     | OtherChild \<Rightarrow> Inl RuntimeError) = Inl e" for st'
    by simp
  from process_children_error [OF assms(1) this] show ?thesis
    by (simp add: process_feature_def Let_def)
qed

text \<open>
  C4, as amended. A placeholder of a step that has no column in the header of an example
  block is fatal: the processing of the outline ends with an exception, which is the
  RuntimeWarning that names that block when the block is the first one, so neither the
  later example blocks nor the synthesized keyword are appended; no function of the module
  catches it, so the translation of the feature ends with an exception as well, before any
  file is written.
\<close>

theorem missing_column_is_fatal:
  "(ex \<in> set (sc_examples sc) \<and> stp \<in> set (sc_steps sc) \<and>
    v \<in> set (findall_variables (step_text stp)) \<and> v \<notin> cell_value ` set (ex_tableHeader ex) \<longrightarrow>
      (\<exists>e. process_scenario_outline E sc st = Inl e)
      \<and> (\<forall>exs. sc_examples sc = ex # exs \<longrightarrow>
            process_scenario_outline E sc st = Inl (RuntimeWarning (ex_name ex)))
      \<and> (Scenario sc \<in> set (f_children f) \<and>
          sc_keyword sc \<notin> set ([''Scenario''] @ split_on CHR '','' (tr E ''scenario'' None)) \<and>
          sc_keyword sc \<in> set ([''Scenario Outline'']
                                 @ split_on CHR '','' (tr E ''scenariooutline'' None)) \<longrightarrow>
            (\<exists>e. process_feature E f initial_state = Inl e \<and> process_gherkin E f path fs = Inl e)))"
proof (intro impI conjI allI)
  assume a: "ex \<in> set (sc_examples sc) \<and> stp \<in> set (sc_steps sc) \<and>
    v \<in> set (findall_variables (step_text stp)) \<and> v \<notin> cell_value ` set (ex_tableHeader ex)"
  then show "\<exists>e. process_scenario_outline E sc st = Inl e"
    using missing_column_error by blast
next
  fix exs
  assume a: "ex \<in> set (sc_examples sc) \<and> stp \<in> set (sc_steps sc) \<and>
    v \<in> set (findall_variables (step_text stp)) \<and> v \<notin> cell_value ` set (ex_tableHeader ex)"
    and b: "sc_examples sc = ex # exs"
  then show "process_scenario_outline E sc st = Inl (RuntimeWarning (ex_name ex))"
    using missing_column_first by blast
next
  assume a: "ex \<in> set (sc_examples sc) \<and> stp \<in> set (sc_steps sc) \<and>
    v \<in> set (findall_variables (step_text stp)) \<and> v \<notin> cell_value ` set (ex_tableHeader ex)"
    and b: "Scenario sc \<in> set (f_children f) \<and>
          sc_keyword sc \<notin> set ([''Scenario''] @ split_on CHR '','' (tr E ''scenario'' None)) \<and>
          sc_keyword sc \<in> set ([''Scenario Outline'']
                                 @ split_on CHR '','' (tr E ''scenariooutline'' None))"
  from a b obtain e where "process_feature E f initial_state = Inl e"
    using missing_column_feature [of sc f E ex stp v initial_state] by blast
  then show "\<exists>e. process_feature E f initial_state = Inl e \<and> process_gherkin E f path fs = Inl e"
    by (simp add: process_gherkin_def)
qed

theorem missing_column_is_fatal_witness:
  "example_block ''first'' 5 [''balance''] [[''10'']] \<in> set (sc_examples missing_column_outline)
   \<and> plain_step ''Then '' ''the value is <amount>'' \<in> set (sc_steps missing_column_outline)
   \<and> ''amount'' \<in> set (findall_variables (step_text (plain_step ''Then '' ''the value is <amount>'')))
   \<and> ''amount'' \<notin> cell_value ` set (ex_tableHeader (example_block ''first'' 5 [''balance''] [[''10'']]))
   \<and> (\<exists>e. process_scenario_outline english_env missing_column_outline initial_state = Inl e)"
proof -
  have a: "example_block ''first'' 5 [''balance''] [[''10'']] \<in> set (sc_examples missing_column_outline)
   \<and> plain_step ''Then '' ''the value is <amount>'' \<in> set (sc_steps missing_column_outline)
   \<and> ''amount'' \<in> set (findall_variables (step_text (plain_step ''Then '' ''the value is <amount>'')))
   \<and> ''amount'' \<notin> cell_value ` set (ex_tableHeader (example_block ''first'' 5 [''balance''] [[''10'']]))"
    by (simp add: missing_column_outline_def outline_def example_block_def plain_step_def
        variable_end_def is_alnum_def is_alpha_def is_digit_def)
  from missing_column_is_fatal
    [where ex = "example_block ''first'' 5 [''balance''] [[''10'']]"
       and sc = missing_column_outline
       and stp = "plain_step ''Then '' ''the value is <amount>''"
       and v = "''amount''" and E = english_env and st = initial_state] a
  show ?thesis by blast
qed

theorem missing_column_counterexample:
  "process_scenario_outline english_env missing_column_outline initial_state
     = Inl (RuntimeWarning ''first'')
   \<and> process_gherkin english_env (feature_of ''Bank'' [Scenario missing_column_outline]) ''out''
       Map.empty = Inl (RuntimeWarning ''first'')"
proof -
  have a: "process_scenario_outline english_env missing_column_outline initial_state
     = Inl (RuntimeWarning ''first'')"
    by (simp add: process_scenario_outline_def missing_column_outline_def outline_def
        plain_step_def example_block_def Let_def variable_end_def is_alnum_def is_alpha_def
        is_digit_def outline_example_def)
  have b: "sc_keyword missing_column_outline = ''Scenario Outline''"
    by (simp add: missing_column_outline_def outline_def)
  have c: "tr english_env ''scenario'' None = ''Scenario''"
    "tr english_env ''scenariooutline'' None = ''Scenario Outline''"
    by (simp_all add: english_env_def english_tr_def english_table_def)
  have "process_scenario english_env missing_column_outline
          (initial_state\<lparr>background_available := False\<rparr>) = Inl (RuntimeWarning ''first'')"
    unfolding process_scenario_def b c using a
    by (simp add: initial_state_def)
  then have "process_feature english_env (feature_of ''Bank'' [Scenario missing_column_outline])
          initial_state = Inl (RuntimeWarning ''first'')"
    by (simp add: process_feature_def feature_of_def Let_def)
  with a show ?thesis by (simp add: process_gherkin_def)
qed

end
